theory Spec2Isabelle
  imports Main
begin

section \<open>Errors, results, channels and the environment\<close>

text \<open>
  The package's sentinel errors and the two ways the code wraps them:
  \<^verbatim>\<open>fmt.Errorf("%w: %v", sentinel, cause)\<close> (and \<^verbatim>\<open>"%w: %d"\<close>) is \<open>Errorf_wv\<close>
  (\<open>Errorf_wd\<close>), \<^verbatim>\<open>fmt.Errorf("text %w", err)\<close> is \<open>Errorf_w\<close>.
  \<open>CtxErr\<close> is what \<^verbatim>\<open>ctx.Err()\<close> returns once a context is done, \<open>AmqpError\<close> a
  \<^verbatim>\<open>*amqp.Error\<close> of the broker, \<open>Cause\<close> the opaque error of \<^verbatim>\<open>url.Parse\<close>,
  \<^verbatim>\<open>amqp.DialConfig\<close> or of opening a channel.
\<close>

datatype error =
    ErrInvalidPoolSize
  | ErrInvalidConnectURL
  | ErrConnectionFailed
  | ErrConnectionClosed
  | ErrPoolInitializationFailed
  | ErrClosed
  | ErrPoolClosed
  | CtxErr
  | AmqpError nat
  | Cause string
  | Errorf_wv error error
  | Errorf_wd error int
  | Errorf_w string error

text \<open>\<^verbatim>\<open>errors.Is\<close>: the chain of \<^verbatim>\<open>%w\<close> wrappers is searched for the target.\<close>

fun errors_Is :: "error \<Rightarrow> error \<Rightarrow> bool" where
  "errors_Is (Errorf_wv s c) t = (Errorf_wv s c = t \<or> errors_Is s t)"
| "errors_Is (Errorf_wd s n) t = (Errorf_wd s n = t \<or> errors_Is s t)"
| "errors_Is (Errorf_w m e) t = (Errorf_w m e = t \<or> errors_Is e t)"
| "errors_Is e t = (e = t)"

text \<open>
  How a call ends: it returns, it panics, it blocks for ever in a \<^verbatim>\<open>select\<close> (or a
  channel operation) none of whose cases is ready, or it never leaves a retry loop.
  Every operation also returns the objects it worked on, so that their state after a
  panic is visible too. A Go result pair \<^verbatim>\<open>(*T, error)\<close> is a pair of options,
  \<open>None\<close> for \<^verbatim>\<open>nil\<close>.
\<close>

datatype 'a outcome = Ret 'a | Panic string | Blocks | Loops

text \<open>A buffered channel: the queued values, oldest first, its capacity, and whether
  \<^verbatim>\<open>close\<close> was called on it.\<close>

record 'a chan =
  buf :: "'a list"
  cap :: nat
  chan_closed :: bool

definition make_chan :: "nat \<Rightarrow> 'a chan" where
  "make_chan n = \<lparr>buf = [], cap = n, chan_closed = False\<rparr>"

definition can_recv :: "'a chan \<Rightarrow> bool" where
  "can_recv c = (buf c \<noteq> [] \<or> chan_closed c)"

definition can_send :: "'a chan \<Rightarrow> bool" where
  "can_send c = (length (buf c) < cap c)"

definition send :: "'a \<Rightarrow> 'a chan \<Rightarrow> 'a chan" where
  "send x c = c\<lparr>buf := buf c @ [x]\<rparr>"

text \<open>
  The environment of a run, as the code meets it: the outcomes of the successive calls
  of \<^verbatim>\<open>amqp.DialConfig\<close>; for each cancellable sleep (a \<^verbatim>\<open>select\<close> between the
  shutdown token and a timer), whether the token fires before the timer; the numbers by
  which the scheduler picks among the ready cases of a \<^verbatim>\<open>select\<close>; the outcomes of
  the successive attempts to open a session; the outcomes of the successive session
  recoveries; for each \<^verbatim>\<open>Stop\<close> of a running timer, whether the timer has fired before
  it; \<^verbatim>\<open>url.Parse\<close> and \<^verbatim>\<open>url.ParseRequestURI\<close>, each followed by
  \<^verbatim>\<open>String()\<close> (the first argument tells whether a TLS configuration forces the
  scheme); and the application's name. A list that is used up stands
  for: every further dial fails, no further sleep is interrupted, the scheduler takes
  the first ready case, every further session opens and recovers, no further timer
  has fired when it is stopped.
\<close>

datatype dial = DialOk | DialFail string

record world =
  dials :: "dial list"
  sleeps :: "bool list"
  picks :: "nat list"
  opens :: "bool list"
  srecovers :: "error option list"
  fired :: "bool list"
  parse :: "bool \<Rightarrow> string \<Rightarrow> string option"
  parseRequestURI :: "bool \<Rightarrow> string \<Rightarrow> string option"
  defaultAppName :: string

definition next_dial :: "world \<Rightarrow> dial \<times> world" where
  "next_dial w = (case dials w of [] \<Rightarrow> (DialFail [], w) | d # ds \<Rightarrow> (d, w\<lparr>dials := ds\<rparr>))"

definition next_sleep :: "world \<Rightarrow> bool \<times> world" where
  "next_sleep w = (case sleeps w of [] \<Rightarrow> (False, w) | b # bs \<Rightarrow> (b, w\<lparr>sleeps := bs\<rparr>))"

definition next_pick :: "world \<Rightarrow> nat \<times> world" where
  "next_pick w = (case picks w of [] \<Rightarrow> (0, w) | k # ks \<Rightarrow> (k, w\<lparr>picks := ks\<rparr>))"

definition next_open :: "world \<Rightarrow> bool \<times> world" where
  "next_open w = (case opens w of [] \<Rightarrow> (True, w) | b # bs \<Rightarrow> (b, w\<lparr>opens := bs\<rparr>))"

definition next_srecover :: "world \<Rightarrow> error option \<times> world" where
  "next_srecover w =
     (case srecovers w of [] \<Rightarrow> (None, w) | r # rs \<Rightarrow> (r, w\<lparr>srecovers := rs\<rparr>))"

definition next_fired :: "world \<Rightarrow> bool \<times> world" where
  "next_fired w = (case fired w of [] \<Rightarrow> (False, w) | b # bs \<Rightarrow> (b, w\<lparr>fired := bs\<rparr>))"

text \<open>
  A \<^verbatim>\<open>select\<close> without \<^verbatim>\<open>default\<close>: \<open>None\<close> when no case is ready (the call
  blocks), else one of the ready cases, picked by the scheduler.
\<close>

definition select_ready :: "world \<Rightarrow> 'a list \<Rightarrow> 'a option \<times> world" where
  "select_ready w ready =
     (if ready = [] then (None, w)
      else (case next_pick w of (k, w') \<Rightarrow> (Some (ready ! (k mod length ready)), w')))"

section \<open>Connection (pool/connection.go)\<close>

text \<open>
  The handle \<^verbatim>\<open>*amqp.Connection\<close> with what \<^verbatim>\<open>IsClosed()\<close> reports. The fields
  of \<^verbatim>\<open>Connection\<close>: \<open>conn = None\<close> is the nil handle, \<open>errors\<close> and \<open>blockers\<close>
  are the notification channels (a \<^verbatim>\<open>amqp.Blocking\<close> is its \<^verbatim>\<open>Active\<close> bit),
  \<open>ctx_done\<close> tells whether \<^verbatim>\<open>ch.ctx.Done()\<close> is closed (by \<^verbatim>\<open>ch.cancel\<close> or
  through a parent context), \<open>cached\<close> is what \<^verbatim>\<open>IsCached()\<close> reads, set by
  \<^verbatim>\<open>ConnectionWithCached\<close>. The mutex is not modelled: the operations are atomic.
\<close>

datatype amqp_Connection = AmqpConn (handle_closed: bool)

record Connection =
  url :: string
  name :: string
  conn_id :: int
  flagged :: bool
  tls :: bool
  conn :: "amqp_Connection option"
  errors :: "error chan"
  blockers :: "bool chan"
  cached :: bool
  ctx_done :: bool

definition isShutdown :: "Connection \<Rightarrow> bool" where
  "isShutdown ch = ctx_done ch"

definition isClosed :: "Connection \<Rightarrow> bool" where
  "isClosed ch =
     (flagged ch \<or> conn ch = None \<or> (case conn ch of None \<Rightarrow> True | Some h \<Rightarrow> handle_closed h)
      \<or> isShutdown ch)"

text \<open>
  Modelled from the spec: \<^verbatim>\<open>IsFlagged\<close> and \<^verbatim>\<open>IsCached\<close>, which the connection
  pool calls, are not among the sources. The spec: flagged is the sticky health bit of
  the Connection, and a Connection is cached or transient, immutably from its creation.
\<close>

definition IsFlagged :: "Connection \<Rightarrow> bool" where
  "IsFlagged ch = flagged ch"

definition IsCached :: "Connection \<Rightarrow> bool" where
  "IsCached ch = cached ch"

definition Flag :: "bool \<Rightarrow> Connection \<Rightarrow> Connection" where
  "Flag f ch = (if \<not> flagged ch \<and> f then ch\<lparr>flagged := f\<rparr> else ch)"

text \<open>\<^verbatim>\<open>connect\<close>: reuse an open connection, else dial; a successful dial binds the new
  handle and fresh notification channels.\<close>

definition connect :: "world \<Rightarrow> Connection \<Rightarrow> error option \<times> Connection \<times> world" where
  "connect w ch =
     (if \<not> isClosed ch then (None, ch, w)
      else (case next_dial w of
              (DialFail c, w') \<Rightarrow> (Some (Errorf_wv ErrConnectionFailed (Cause c)), ch, w')
            | (DialOk, w') \<Rightarrow>
                (None,
                 ch\<lparr>conn := Some (AmqpConn False), errors := make_chan 10,
                    blockers := make_chan 10\<rparr>,
                 w')))"

definition Connect :: "world \<Rightarrow> Connection \<Rightarrow> error option \<times> Connection \<times> world" where
  "Connect w ch = connect w ch"

text \<open>\<^verbatim>\<open>Close\<close>: cancel the derived context, then close the handle if it is open (the
  error of the handle's own \<^verbatim>\<open>Close\<close> is dropped by every caller).\<close>

definition Close :: "Connection \<Rightarrow> Connection" where
  "Close ch =
     (let ch1 = ch\<lparr>ctx_done := True\<rparr> in
      (case conn ch1 of
         None \<Rightarrow> ch1
       | Some h \<Rightarrow> if \<not> handle_closed h then ch1\<lparr>conn := Some (AmqpConn True)\<rparr> else ch1))"

text \<open>
  \<^verbatim>\<open>error\<close>: the loop around a \<^verbatim>\<open>select\<close> with the cases shutdown, receive from
  \<^verbatim>\<open>ch.errors\<close>, and \<^verbatim>\<open>default\<close>. A receive from a closed and drained channel
  gives \<^verbatim>\<open>!ok\<close>.
\<close>

datatype error_case = Shutdown_case | Errors_case

definition error_ready :: "Connection \<Rightarrow> error_case list" where
  "error_ready ch =
     (if ctx_done ch then [Shutdown_case] else []) @
     (if can_recv (errors ch) then [Errors_case] else [])"

function error_loop :: "error option \<Rightarrow> world \<Rightarrow> Connection \<Rightarrow> error option \<times> Connection \<times> world" where
  "error_loop err w ch =
     (if error_ready ch = [] then (err, ch, w)
      else (case select_ready w (error_ready ch) of
              (Some Errors_case, w') \<Rightarrow>
                (case buf (errors ch) of
                   [] \<Rightarrow> (Some ErrConnectionClosed, ch, w')
                 | e # es \<Rightarrow>
                     error_loop (if err = None then Some e else err) w'
                       (ch\<lparr>errors := (errors ch)\<lparr>buf := es\<rparr>\<rparr>))
            | (_, w') \<Rightarrow> (Some ErrConnectionClosed, ch, w')))"
  by pat_completeness auto
termination
  by (relation "measure (\<lambda>(err, w, ch). length (buf (errors ch)))") auto

declare error_loop.simps [simp del]

definition Error :: "world \<Rightarrow> Connection \<Rightarrow> error option \<times> Connection \<times> world" where
  "Error w ch = error_loop None w ch"

text \<open>
  A \<^verbatim>\<open>time.Timer\<close>: it is running; or it has fired and its value waits in
  \<^verbatim>\<open>timer.C\<close>; or it is idle, that is stopped, or fired with its value received, and
  \<^verbatim>\<open>timer.C\<close> is empty. \<^verbatim>\<open>Stop\<close> tells whether the call stopped the timer: it
  returns false on a timer that has fired or was stopped before. A receive from
  \<^verbatim>\<open>timer.C\<close> of an idle timer blocks for ever. Whether a running timer has fired
  when the code reaches \<^verbatim>\<open>Stop\<close> depends on the time that passed; the environment
  tells. \<^verbatim>\<open>Reset\<close> is only reached after the idiom below has left the channel
  empty, and starts the timer.
\<close>

datatype timer = Running | Fired | Idle

definition observe :: "world \<Rightarrow> timer \<Rightarrow> timer \<times> world" where
  "observe w t =
     (case t of
        Running \<Rightarrow> (case next_fired w of (True, w') \<Rightarrow> (Fired, w') | (False, w') \<Rightarrow> (Running, w'))
      | Fired \<Rightarrow> (Fired, w)
      | Idle \<Rightarrow> (Idle, w))"

fun timer_Stop :: "timer \<Rightarrow> bool \<times> timer" where
  "timer_Stop Running = (True, Idle)"
| "timer_Stop Fired = (False, Fired)"
| "timer_Stop Idle = (False, Idle)"

fun timer_recv :: "timer \<Rightarrow> timer option" where
  "timer_recv Running = Some Idle"
| "timer_recv Fired = Some Idle"
| "timer_recv Idle = None"

definition timer_Reset :: "timer \<Rightarrow> timer" where
  "timer_Reset t = Running"

text \<open>The idiom \<^verbatim>\<open>if !timer.Stop() { <-timer.C }\<close>; \<open>None\<close> when the receive blocks
  for ever.\<close>

definition stop_drain :: "world \<Rightarrow> timer \<Rightarrow> (timer \<times> world) option" where
  "stop_drain w t =
     (case observe w t of
        (t1, w1) \<Rightarrow>
          (case timer_Stop t1 of
             (True, t2) \<Rightarrow> Some (t2, w1)
           | (False, t2) \<Rightarrow> (case timer_recv t2 of None \<Rightarrow> None | Some t3 \<Rightarrow> Some (t3, w1))))"

text \<open>A return with result \<open>x\<close> from a function that has deferred the idiom.\<close>

definition deferred_drain ::
  "timer \<Rightarrow> world \<Rightarrow> 'a \<Rightarrow> Connection \<Rightarrow> 'a outcome \<times> Connection \<times> world" where
  "deferred_drain t w x ch =
     (case stop_drain w t of None \<Rightarrow> (Blocks, ch, w) | Some (t', w') \<Rightarrow> (Ret x, ch, w'))"

text \<open>
  \<^verbatim>\<open>pauseOnFlowControl\<close>: a timer of one second is created and the idiom deferred.
  While the connection is open, the loop takes a pending blocking notification; an
  inactive one (also the zero value read from a closed channel) ends the wait; on an
  active one the timer is stopped, drained and reset, and a \<^verbatim>\<open>select\<close> waits for
  the shutdown token or the timer. In that \<^verbatim>\<open>select\<close> the token has not fired
  before (the loop condition), so the environment tells whether it fires during the
  second; if not, the value of the timer is received, the timer is idle, and the loop
  goes on.
\<close>

function pause_loop :: "timer \<Rightarrow> world \<Rightarrow> Connection \<Rightarrow> unit outcome \<times> Connection \<times> world" where
  "pause_loop t w ch =
     (if isClosed ch then deferred_drain t w () ch
      else if \<not> can_recv (blockers ch) then deferred_drain t w () ch
      else (case buf (blockers ch) of
              [] \<Rightarrow> deferred_drain t w () ch
            | b # bs \<Rightarrow>
                (let ch1 = ch\<lparr>blockers := (blockers ch)\<lparr>buf := bs\<rparr>\<rparr> in
                 if \<not> b then deferred_drain t w () ch1
                 else (case stop_drain w t of
                         None \<Rightarrow> (Blocks, ch1, w)
                       | Some (t1, w1) \<Rightarrow>
                           (case next_sleep w1 of
                              (True, w2) \<Rightarrow>
                                deferred_drain (timer_Reset t1) w2 () (ch1\<lparr>ctx_done := True\<rparr>)
                            | (False, w2) \<Rightarrow> pause_loop Idle w2 ch1)))))"
  by pat_completeness auto
termination
  by (relation "measure (\<lambda>(t, w, ch). length (buf (blockers ch)))") auto

declare pause_loop.simps [simp del]

definition pauseOnFlowControl :: "world \<Rightarrow> Connection \<Rightarrow> unit outcome \<times> Connection \<times> world" where
  "pauseOnFlowControl w ch = pause_loop Running w ch"

text \<open>
  \<^verbatim>\<open>recover\<close>. After draining the errors, a healthy open connection only pauses on
  flow control. Otherwise a timer of duration 0 is created, stopped and drained, and
  the idiom is deferred; then the retry loop runs. After a failed dial the timer is
  reset to \<^verbatim>\<open>errorBackoff(retry)\<close> and a \<^verbatim>\<open>select\<close> waits for the shutdown token
  or the timer: a token that has fired already wins, else the environment tells
  whether it fires during the sleep. When the timer wins, its value has been received
  and the timer is idle when the code runs the idiom again before \<^verbatim>\<open>continue\<close>.
  When the dial succeeds the loop is left, the flag is cleared and the function returns
  through the deferred idiom. The loop runs on fuel (\<open>Loops\<close> when it is used up);
  lemma \<open>recover_loop_fuel\<close> shows that the fuel never matters.
\<close>

definition recovery_failed :: error where
  "recovery_failed = Errorf_w ''connection recovery failed: '' ErrPoolClosed"

fun recover_loop ::
  "nat \<Rightarrow> nat \<Rightarrow> timer \<Rightarrow> world \<Rightarrow> Connection \<Rightarrow> error option outcome \<times> Connection \<times> world" where
  "recover_loop 0 retry t w ch = (Loops, ch, w)"
| "recover_loop (Suc n) retry t w ch =
     (case connect w ch of
        (None, ch', w') \<Rightarrow> deferred_drain t w' None (ch'\<lparr>flagged := False\<rparr>)
      | (Some e, ch', w') \<Rightarrow>
          (if ctx_done ch' then deferred_drain (timer_Reset t) w' (Some recovery_failed) ch'
           else (case next_sleep w' of
                   (True, w'') \<Rightarrow>
                     deferred_drain (timer_Reset t) w'' (Some recovery_failed)
                       (ch'\<lparr>ctx_done := True\<rparr>)
                 | (False, w'') \<Rightarrow>
                     (case stop_drain w'' Idle of
                        None \<Rightarrow> (Blocks, ch', w'')
                      | Some (t2, w3) \<Rightarrow> recover_loop n (Suc retry) t2 w3 ch'))))"

definition recover :: "world \<Rightarrow> Connection \<Rightarrow> error option outcome \<times> Connection \<times> world" where
  "recover w ch =
     (case error_loop None w ch of
        (e, ch1, w1) \<Rightarrow>
          if e = None \<and> \<not> isClosed ch1
          then (case pauseOnFlowControl w1 ch1 of
                  (Ret u, ch2, w2) \<Rightarrow> (Ret None, ch2, w2)
                | (Panic m, ch2, w2) \<Rightarrow> (Panic m, ch2, w2)
                | (Blocks, ch2, w2) \<Rightarrow> (Blocks, ch2, w2)
                | (Loops, ch2, w2) \<Rightarrow> (Loops, ch2, w2))
          else (case stop_drain w1 Running of
                  None \<Rightarrow> (Blocks, ch1, w1)
                | Some (t, w2) \<Rightarrow>
                    recover_loop (Suc (length (dials w2) + length (sleeps w2))) 0 t w2 ch1))"

definition Recover :: "world \<Rightarrow> Connection \<Rightarrow> error option outcome \<times> Connection \<times> world" where
  "Recover w ch = recover w ch"

text \<open>
  The operations of a \<^verbatim>\<open>Connection\<close> as one step function, to state properties of
  every sequence of them. The first component tells whether the call returns; a call
  that does not return keeps the mutex of the connection, so that no later operation
  of the sequence runs.
\<close>

datatype conn_op =
    Op_Flag bool
  | Op_Connect
  | Op_PauseOnFlowControl
  | Op_IsClosed
  | Op_Close
  | Op_Error
  | Op_Recover

fun returned :: "'a outcome \<Rightarrow> bool" where
  "returned (Ret x) = True"
| "returned r = False"

fun apply_op :: "world \<Rightarrow> conn_op \<Rightarrow> Connection \<Rightarrow> bool \<times> Connection \<times> world" where
  "apply_op w (Op_Flag b) ch = (True, Flag b ch, w)"
| "apply_op w Op_Connect ch = (case Connect w ch of (e, ch', w') \<Rightarrow> (True, ch', w'))"
| "apply_op w Op_PauseOnFlowControl ch =
     (case pauseOnFlowControl w ch of (r, ch', w') \<Rightarrow> (returned r, ch', w'))"
| "apply_op w Op_IsClosed ch = (True, ch, w)"
| "apply_op w Op_Close ch = (True, Close ch, w)"
| "apply_op w Op_Error ch = (case Error w ch of (e, ch', w') \<Rightarrow> (True, ch', w'))"
| "apply_op w Op_Recover ch =
     (case Recover w ch of (r, ch', w') \<Rightarrow> (returned r, ch', w'))"

fun run_ops :: "world \<Rightarrow> conn_op list \<Rightarrow> Connection \<Rightarrow> bool \<times> Connection \<times> world" where
  "run_ops w [] ch = (True, ch, w)"
| "run_ops w (op # ops) ch =
     (case apply_op w op ch of
        (True, ch', w') \<Rightarrow> run_ops w' ops ch'
      | (False, ch', w') \<Rightarrow> (False, ch', w'))"

text \<open>A recovery from \<open>w\<close> to \<open>w'\<close> has reached a successful dial: the dials it used
  up are failures followed by one success.\<close>

definition dialled_ok :: "world \<Rightarrow> world \<Rightarrow> bool" where
  "dialled_ok w w' =
     (\<exists>n < length (dials w). dials w ! n = DialOk \<and> DialOk \<notin> set (take n (dials w)) \<and>
        dials w' = drop (Suc n) (dials w))"

section \<open>Connection pool\<close>

text \<open>
  \<^verbatim>\<open>NewConnection\<close> (pool/connection.go, lines 41 to 93), with the arguments its
  caller \<^verbatim>\<open>deriveConnection\<close> passes: the parent context, the URL, the name, and the
  options for TLS and for cached. Heartbeat, timeout and backoff only reach the dial
  and the sleeps, which the environment stands for. When \<^verbatim>\<open>Connect\<close> fails the code
  returns \<^verbatim>\<open>nil, err\<close>.
\<close>

definition NewConnection ::
  "world \<Rightarrow> bool \<Rightarrow> string \<Rightarrow> string \<Rightarrow> int \<Rightarrow> bool \<Rightarrow> bool \<Rightarrow>
   Connection option \<times> error option \<times> world" where
  "NewConnection w ctx connectUrl nm i tlsConfig isCached =
     (case parse w tlsConfig connectUrl of
        None \<Rightarrow> (None, Some (Errorf_wv ErrInvalidConnectURL (Cause ''url.Parse'')), w)
      | Some u \<Rightarrow>
          (let c = \<lparr>url = u, name = nm, conn_id = i, flagged = False, tls = tlsConfig,
                    conn = None, errors = make_chan 10, blockers = make_chan 10,
                    cached = isCached, ctx_done = ctx\<rparr>
           in (case Connect w c of
                 (Some err, c', w') \<Rightarrow> (None, Some err, w')
               | (None, c', w') \<Rightarrow> (Some c', None, w'))))"

text \<open>\<^verbatim>\<open>fmt.Sprintf("%d", id)\<close>.\<close>

fun string_of_nat :: "nat \<Rightarrow> string" where
  "string_of_nat n =
     (if n < 10 then [''0123456789'' ! n]
      else string_of_nat (n div 10) @ [''0123456789'' ! (n mod 10)])"

declare string_of_nat.simps [simp del]

definition string_of_int :: "int \<Rightarrow> string" where
  "string_of_int i = (if i < 0 then CHR ''-'' # string_of_nat (nat (- i)) else string_of_nat (nat i))"

record ConnectionPool =
  cp_name :: string
  cp_url :: string
  cp_size :: int
  cp_tls :: bool
  cp_ctx_done :: bool
  connections :: "Connection chan"
  transientID :: int
  concurrentTransient :: int

record connectionPoolOption =
  Name :: string
  Size :: int
  Ctx :: bool
  TLSConfig :: bool

definition deriveConnection ::
  "world \<Rightarrow> bool \<Rightarrow> ConnectionPool \<Rightarrow> int \<Rightarrow> bool \<Rightarrow> Connection option \<times> error option \<times> world" where
  "deriveConnection w ctx cp i isCached =
     (let nm = (if isCached then cp_name cp @ ''-cached-connection-'' @ string_of_int i
                else cp_name cp @ ''-transient-connection-'' @ string_of_int i)
      in NewConnection w ctx (cp_url cp) nm i (cp_tls cp) isCached)"

text \<open>
  \<^verbatim>\<open>initCachedConns\<close>: the loop from \<open>id\<close> on. The \<^verbatim>\<open>select\<close> has the cases send,
  \<^verbatim>\<open>cp.ctx.Done()\<close> and \<^verbatim>\<open>default\<close>. \<^verbatim>\<open>NewConnection\<close> never returns
  \<^verbatim>\<open>nil, nil\<close> (lemma \<open>NewConnection_value\<close>), so the branch for it is never taken.
\<close>

datatype init_case = Send_case | Done_case

definition init_ready :: "ConnectionPool \<Rightarrow> init_case list" where
  "init_ready cp =
     (if can_send (connections cp) then [Send_case] else []) @
     (if cp_ctx_done cp then [Done_case] else [])"

function initCachedConns_from ::
  "int \<Rightarrow> world \<Rightarrow> ConnectionPool \<Rightarrow> error option \<times> ConnectionPool \<times> world" where
  "initCachedConns_from i w cp =
     (if i < cp_size cp then
        (case deriveConnection w (cp_ctx_done cp) cp i True of
           (_, Some err, w1) \<Rightarrow> (Some (Errorf_wv ErrPoolInitializationFailed err), cp, w1)
         | (None, None, w1) \<Rightarrow> initCachedConns_from (i + 1) w1 cp
         | (Some c, None, w1) \<Rightarrow>
             (if init_ready cp = []
              then (Some (Errorf_wv ErrPoolInitializationFailed (Cause ''pool channel buffer full'')),
                    cp, w1)
              else (case select_ready w1 (init_ready cp) of
                      (Some Send_case, w2) \<Rightarrow>
                        initCachedConns_from (i + 1) w2
                          (cp\<lparr>connections := send c (connections cp)\<rparr>)
                    | (_, w2) \<Rightarrow>
                        (Some (Errorf_wv ErrPoolInitializationFailed CtxErr), cp, w2))))
      else (None, cp, w))"
  by pat_completeness auto
termination
  by (relation "measure (\<lambda>(i, w, cp). nat (cp_size cp - i))") auto

declare initCachedConns_from.simps [simp del]

definition initCachedConns :: "world \<Rightarrow> ConnectionPool \<Rightarrow> error option \<times> ConnectionPool \<times> world" where
  "initCachedConns w cp = initCachedConns_from 0 w cp"

text \<open>
  \<^verbatim>\<open>newConnectionPoolFromOption\<close> and \<^verbatim>\<open>NewConnectionPool\<close>. Besides the Go result
  pair, the model returns the pool object as the call leaves it in memory (\<open>None\<close>
  when none was allocated): after a failed initialization the caller gets \<^verbatim>\<open>nil\<close>,
  but the object and the connections in its queue still exist. \<^verbatim>\<open>make\<close> panics on
  a negative capacity.
\<close>

definition newConnectionPoolFromOption ::
  "world \<Rightarrow> string \<Rightarrow> connectionPoolOption \<Rightarrow>
   (ConnectionPool option \<times> error option) outcome \<times> ConnectionPool option \<times> world" where
  "newConnectionPoolFromOption w connectUrl option =
     (case parseRequestURI w (TLSConfig option) connectUrl of
        None \<Rightarrow>
          (Ret (None, Some (Errorf_wv ErrInvalidConnectURL (Cause ''url.ParseRequestURI''))),
           None, w)
      | Some u \<Rightarrow>
          if Size option < 0 then (Panic ''makechan: size out of range'', None, w)
          else
            (let cp = \<lparr>cp_name = Name option, cp_url = u, cp_size = Size option,
                       cp_tls = TLSConfig option, cp_ctx_done = Ctx option,
                       connections = make_chan (nat (Size option)),
                       transientID = 0, concurrentTransient = 0\<rparr>
             in (case initCachedConns w cp of
                   (Some err, cp', w') \<Rightarrow> (Ret (None, Some err), Some cp', w')
                 | (None, cp', w') \<Rightarrow> (Ret (Some cp', None), Some cp', w'))))"

definition NewConnectionPool ::
  "world \<Rightarrow> bool \<Rightarrow> string \<Rightarrow> int \<Rightarrow> (connectionPoolOption \<Rightarrow> connectionPoolOption) list \<Rightarrow>
   (ConnectionPool option \<times> error option) outcome \<times> ConnectionPool option \<times> world" where
  "NewConnectionPool w ctx connectUrl numConns options =
     (if numConns < 1 then (Ret (None, Some (Errorf_wd ErrInvalidPoolSize numConns)), None, w)
      else newConnectionPoolFromOption w connectUrl
             (foldl (\<lambda>option o'. o' option)
                \<lparr>Name = defaultAppName w, Size = numConns, Ctx = ctx, TLSConfig = False\<rparr>
                options))"

text \<open>
  \<^verbatim>\<open>GetConnection\<close>. \<^verbatim>\<open>conn.IsFlagged()\<close> and \<^verbatim>\<open>conn.Recover(ctx)\<close> are
  not among the sources with these signatures: \<open>IsFlagged\<close> reads the field, and
  \<open>Recover\<close> is the \<^verbatim>\<open>Recover()\<close> of pool/connection.go, which takes no context,
  so that the caller's \<^verbatim>\<open>ctx\<close> does not reach it. A connection whose recovery
  fails or does not return is neither returned nor put back.
\<close>

datatype get_case = Recv_case | Ctx_case | Closed_case

definition pool_closed :: error where
  "pool_closed = Errorf_w ''connection pool '' ErrClosed"

definition get_ready :: "bool \<Rightarrow> ConnectionPool \<Rightarrow> get_case list" where
  "get_ready ctx cp =
     (if can_recv (connections cp) then [Recv_case] else []) @
     (if ctx then [Ctx_case] else []) @
     (if cp_ctx_done cp then [Closed_case] else [])"

definition GetConnection ::
  "world \<Rightarrow> bool \<Rightarrow> ConnectionPool \<Rightarrow>
   (Connection option \<times> error option) outcome \<times> ConnectionPool \<times> world" where
  "GetConnection w ctx cp =
     (case select_ready w (get_ready ctx cp) of
        (None, w1) \<Rightarrow> (Blocks, cp, w1)
      | (Some Ctx_case, w1) \<Rightarrow> (Ret (None, Some CtxErr), cp, w1)
      | (Some Closed_case, w1) \<Rightarrow> (Ret (None, Some pool_closed), cp, w1)
      | (Some Recv_case, w1) \<Rightarrow>
          (case buf (connections cp) of
             [] \<Rightarrow> (Ret (None, Some pool_closed), cp, w1)
           | c # cs \<Rightarrow>
               (let cp1 = cp\<lparr>connections := (connections cp)\<lparr>buf := cs\<rparr>\<rparr> in
                if IsFlagged c then
                  (case Recover w1 c of
                     (Ret (Some err), c', w2) \<Rightarrow>
                       (Ret (None, Some (Errorf_w ''failed to get connection: '' err)), cp1, w2)
                   | (Ret None, c', w2) \<Rightarrow> (Ret (Some c', None), cp1, w2)
                   | (Panic m, c', w2) \<Rightarrow> (Panic m, cp1, w2)
                   | (Blocks, c', w2) \<Rightarrow> (Blocks, cp1, w2)
                   | (Loops, c', w2) \<Rightarrow> (Loops, cp1, w2))
                else (Ret (Some c, None), cp1, w1))))"

definition nextTransientID :: "ConnectionPool \<Rightarrow> int \<times> ConnectionPool" where
  "nextTransientID cp = (transientID cp, cp\<lparr>transientID := transientID cp + 1\<rparr>)"

definition incTransient :: "ConnectionPool \<Rightarrow> ConnectionPool" where
  "incTransient cp = cp\<lparr>concurrentTransient := concurrentTransient cp + 1\<rparr>"

definition decTransient :: "ConnectionPool \<Rightarrow> ConnectionPool" where
  "decTransient cp = cp\<lparr>concurrentTransient := concurrentTransient cp - 1\<rparr>"

text \<open>
  \<^verbatim>\<open>GetTransientConnection\<close>. \<open>ptr\<close> is the pointer \<^verbatim>\<open>conn\<close> that \<^verbatim>\<open>deriveConnection\<close>
  returned; calling \<^verbatim>\<open>conn.Recover\<close> on \<^verbatim>\<open>nil\<close> locks \<^verbatim>\<open>ch.mu\<close> through the nil
  pointer and panics. The deferred function increments the counter when the named
  result \<^verbatim>\<open>err\<close> is \<^verbatim>\<open>nil\<close>; it also runs when the call panics, and \<^verbatim>\<open>err\<close> is
  then the dial's error.
\<close>

definition nil_dereference :: string where
  "nil_dereference = ''runtime error: invalid memory address or nil pointer dereference''"

definition GetTransientConnection ::
  "world \<Rightarrow> bool \<Rightarrow> ConnectionPool \<Rightarrow>
   (Connection option \<times> error option) outcome \<times> ConnectionPool \<times> world" where
  "GetTransientConnection w ctx cp =
     (case nextTransientID cp of
        (i, cp1) \<Rightarrow>
          (case deriveConnection w ctx cp1 i False of
             (ptr, None, w1) \<Rightarrow> (Ret (ptr, None), incTransient cp1, w1)
           | (None, Some err, w1) \<Rightarrow> (Panic nil_dereference, cp1, w1)
           | (Some c, Some err, w1) \<Rightarrow>
               (case Recover w1 c of
                  (Ret (Some err'), c', w2) \<Rightarrow>
                    (Ret (None, Some (Errorf_w ''failed to get transient connection: '' err')),
                     cp1, w2)
                | (Ret None, c', w2) \<Rightarrow> (Ret (Some c', None), incTransient cp1, w2)
                | (Panic m, c', w2) \<Rightarrow> (Panic m, cp1, w2)
                | (Blocks, c', w2) \<Rightarrow> (Blocks, cp1, w2)
                | (Loops, c', w2) \<Rightarrow> (Loops, cp1, w2))))"

text \<open>
  Modelled from the spec: \<^verbatim>\<open>flaggable\<close>, which is not among the sources. The spec:
  an error flags a Connection iff it is a broker/transport error; a cancellation-class
  error (caller context expired, pool shutting down) does not; \<^verbatim>\<open>nil\<close> is no error.
\<close>

definition cancellation_class :: "error \<Rightarrow> bool" where
  "cancellation_class e = (errors_Is e CtxErr \<or> errors_Is e ErrClosed \<or> errors_Is e ErrPoolClosed)"

definition flaggable :: "error option \<Rightarrow> bool" where
  "flaggable err = (case err of None \<Rightarrow> False | Some e \<Rightarrow> \<not> cancellation_class e)"

text \<open>\<^verbatim>\<open>ReturnConnection\<close>; the model also returns the connection as the call leaves
  it.\<close>

definition buffer_full :: string where
  "buffer_full = ''connection pool connections buffer full: not supposed to happen''"

definition ReturnConnection ::
  "world \<Rightarrow> bool \<Rightarrow> ConnectionPool \<Rightarrow> Connection \<Rightarrow> error option \<Rightarrow>
   unit outcome \<times> ConnectionPool \<times> Connection \<times> world" where
  "ReturnConnection w ctx cp c err =
     (if \<not> IsCached c then (Ret (), decTransient cp, Close c, w)
      else (let c1 = Flag (flaggable err) c in
            if can_send (connections cp)
            then (Ret (), cp\<lparr>connections := send c1 (connections cp)\<rparr>, c1, w)
            else (Panic buffer_full, cp, c1, w)))"

section \<open>Session pool (pool/connection.go, from line 325)\<close>

text \<open>
  Modelled from the spec: the type \<^verbatim>\<open>Session\<close>, its constructor \<^verbatim>\<open>NewSession\<close> with
  its options, and its methods \<^verbatim>\<open>IsCached\<close>, \<^verbatim>\<open>Close\<close>, \<^verbatim>\<open>Recover\<close> and
  \<^verbatim>\<open>flushConfirms\<close> are not among the sources. The spec: a Session carries an id, a
  buffer size (the capacity of its queue of pending confirmations), a confirmable flag,
  a cached flag and an auto-close-connection flag, and is bound to one Connection.
  Opening a session can fail; the environment tells. \<^verbatim>\<open>Recover\<close> returns what the
  environment tells; the comment at its call in \<^verbatim>\<open>ReturnSession\<close> says that an
  error is only returned on shutdown. \<^verbatim>\<open>flushConfirms\<close> empties the pending
  confirmations. An option that is not given keeps the default of the first line below.
\<close>

record Session =
  s_id :: int
  s_conn :: string
  s_bufferSize :: int
  s_confirmable :: bool
  s_cached :: bool
  s_autoCloseConnection :: bool
  s_ctx_done :: bool
  s_closed :: bool
  s_confirms :: "nat list"

datatype SessionOption =
    SessionWithContext bool
  | SessionWithBufferSize int
  | SessionWithConfirms bool
  | SessionWithCached bool
  | SessionWithAutoCloseConnection bool

fun apply_SessionOption :: "Session \<Rightarrow> SessionOption \<Rightarrow> Session" where
  "apply_SessionOption s (SessionWithContext c) = s\<lparr>s_ctx_done := c\<rparr>"
| "apply_SessionOption s (SessionWithBufferSize n) = s\<lparr>s_bufferSize := n\<rparr>"
| "apply_SessionOption s (SessionWithConfirms b) = s\<lparr>s_confirmable := b\<rparr>"
| "apply_SessionOption s (SessionWithCached b) = s\<lparr>s_cached := b\<rparr>"
| "apply_SessionOption s (SessionWithAutoCloseConnection b) = s\<lparr>s_autoCloseConnection := b\<rparr>"

definition NewSession ::
  "world \<Rightarrow> Connection \<Rightarrow> int \<Rightarrow> SessionOption list \<Rightarrow> Session option \<times> error option \<times> world" where
  "NewSession w c i options =
     (case next_open w of
        (False, w') \<Rightarrow> (None, Some (Cause ''open session''), w')
      | (True, w') \<Rightarrow>
          (Some (foldl apply_SessionOption
                   \<lparr>s_id = i, s_conn = name c, s_bufferSize = 0, s_confirmable = False,
                    s_cached = False, s_autoCloseConnection = False, s_ctx_done = False,
                    s_closed = False, s_confirms = []\<rparr>
                   options),
           None, w'))"

definition Session_IsCached :: "Session \<Rightarrow> bool" where
  "Session_IsCached s = s_cached s"

definition Session_Close :: "Session \<Rightarrow> Session" where
  "Session_Close s = s\<lparr>s_closed := True\<rparr>"

definition Session_Recover :: "world \<Rightarrow> Session \<Rightarrow> error option \<times> Session \<times> world" where
  "Session_Recover w s = (case next_srecover w of (r, w') \<Rightarrow> (r, s, w'))"

definition flushConfirms :: "Session \<Rightarrow> Session" where
  "flushConfirms s = s\<lparr>s_confirms := []\<rparr>"

text \<open>
  The pool. Its pointer to the connection pool is not a field of the model: the
  operations that use \<^verbatim>\<open>sp.pool\<close> take the connection pool and return it updated.
\<close>

record SessionPool =
  sp_transientID :: int
  sp_size :: int
  sp_bufferSize :: int
  sp_confirmable :: bool
  sessions :: "Session chan"
  sp_ctx_done :: bool

record sessionPoolOption =
  so_Size :: int
  so_Confirmable :: bool
  so_BufferSize :: int
  so_Ctx :: bool

definition deriveSession ::
  "world \<Rightarrow> SessionPool \<Rightarrow> Connection \<Rightarrow> int \<Rightarrow> bool \<Rightarrow> Session option \<times> error option \<times> world" where
  "deriveSession w sp c i isCached =
     NewSession w c i
       [SessionWithContext (sp_ctx_done sp),
        SessionWithBufferSize (sp_size sp),
        SessionWithCached isCached,
        SessionWithConfirms (sp_confirmable sp)]"

text \<open>
  \<^verbatim>\<open>initCachedSession\<close>. pool/connection.go calls \<^verbatim>\<open>GetConnection()\<close> and
  \<^verbatim>\<open>ReturnConnection(conn, flag)\<close> with the signatures of an earlier connection pool;
  here they are the calls with a context that is never done, and with a broker-class
  error for \<^verbatim>\<open>true\<close> and \<^verbatim>\<open>nil\<close> for \<^verbatim>\<open>false\<close>. The retry loop runs on fuel;
  \<^verbatim>\<open>initCachedSessions\<close> gives it more fuel than the environment has failures of
  opening a session.
\<close>

fun initCachedSession ::
  "nat \<Rightarrow> world \<Rightarrow> ConnectionPool \<Rightarrow> SessionPool \<Rightarrow> int \<Rightarrow>
   (Session option \<times> error option) outcome \<times> ConnectionPool \<times> world" where
  "initCachedSession 0 w cp sp i = (Loops, cp, w)"
| "initCachedSession (Suc n) w cp sp i =
     (case GetConnection w False cp of
        (Ret (Some c, None), cp1, w1) \<Rightarrow>
          (case deriveSession w1 sp c i True of
             (Some s, None, w2) \<Rightarrow>
               (case ReturnConnection w2 False cp1 c None of
                  (Ret u, cp2, c', w3) \<Rightarrow> (Ret (Some s, None), cp2, w3)
                | (Panic m, cp2, c', w3) \<Rightarrow> (Panic m, cp2, w3)
                | (Blocks, cp2, c', w3) \<Rightarrow> (Blocks, cp2, w3)
                | (Loops, cp2, c', w3) \<Rightarrow> (Loops, cp2, w3))
           | (_, _, w2) \<Rightarrow>
               (case ReturnConnection w2 False cp1 c (Some ErrConnectionFailed) of
                  (Ret u, cp2, c', w3) \<Rightarrow> initCachedSession n w3 cp2 sp i
                | (Panic m, cp2, c', w3) \<Rightarrow> (Panic m, cp2, w3)
                | (Blocks, cp2, c', w3) \<Rightarrow> (Blocks, cp2, w3)
                | (Loops, cp2, c', w3) \<Rightarrow> (Loops, cp2, w3)))
      | (Ret (_, err), cp1, w1) \<Rightarrow> (Ret (None, err), cp1, w1)
      | (Panic m, cp1, w1) \<Rightarrow> (Panic m, cp1, w1)
      | (Blocks, cp1, w1) \<Rightarrow> (Blocks, cp1, w1)
      | (Loops, cp1, w1) \<Rightarrow> (Loops, cp1, w1))"

text \<open>\<^verbatim>\<open>initCachedSessions\<close>: the loop from \<open>i\<close> on; the send has no \<^verbatim>\<open>select\<close>
  and blocks on a full channel.\<close>

function initCachedSessions_from ::
  "int \<Rightarrow> world \<Rightarrow> ConnectionPool \<Rightarrow> SessionPool \<Rightarrow>
   error option outcome \<times> ConnectionPool \<times> SessionPool \<times> world" where
  "initCachedSessions_from i w cp sp =
     (if i < sp_size sp then
        (case initCachedSession (Suc (length (opens w))) w cp sp i of
           (Ret (Some s, None), cp1, w1) \<Rightarrow>
             if can_send (sessions sp)
             then initCachedSessions_from (i + 1) w1 cp1 (sp\<lparr>sessions := send s (sessions sp)\<rparr>)
             else (Blocks, cp1, sp, w1)
         | (Ret (_, err), cp1, w1) \<Rightarrow> (Ret err, cp1, sp, w1)
         | (Panic m, cp1, w1) \<Rightarrow> (Panic m, cp1, sp, w1)
         | (Blocks, cp1, w1) \<Rightarrow> (Blocks, cp1, sp, w1)
         | (Loops, cp1, w1) \<Rightarrow> (Loops, cp1, sp, w1))
      else (Ret None, cp, sp, w))"
  by pat_completeness auto
termination
  by (relation "measure (\<lambda>(i, w, cp, sp). nat (sp_size sp - i))") auto

declare initCachedSessions_from.simps [simp del]

definition initCachedSessions ::
  "world \<Rightarrow> ConnectionPool \<Rightarrow> SessionPool \<Rightarrow>
   error option outcome \<times> ConnectionPool \<times> SessionPool \<times> world" where
  "initCachedSessions w cp sp = initCachedSessions_from 0 w cp sp"

definition newSessionPoolFromOption ::
  "world \<Rightarrow> ConnectionPool \<Rightarrow> sessionPoolOption \<Rightarrow>
   (SessionPool option \<times> error option) outcome \<times> ConnectionPool \<times> world" where
  "newSessionPoolFromOption w cp option =
     (if so_Size option < 0 then (Panic ''makechan: size out of range'', cp, w)
      else (case initCachedSessions w cp
                   \<lparr>sp_transientID = 0, sp_size = so_Size option,
                    sp_bufferSize = so_BufferSize option,
                    sp_confirmable = so_Confirmable option,
                    sessions = make_chan (nat (so_Size option)),
                    sp_ctx_done = so_Ctx option\<rparr> of
              (Ret None, cp1, sp1, w1) \<Rightarrow> (Ret (Some sp1, None), cp1, w1)
            | (Ret (Some err), cp1, sp1, w1) \<Rightarrow> (Ret (None, Some err), cp1, w1)
            | (Panic m, cp1, sp1, w1) \<Rightarrow> (Panic m, cp1, w1)
            | (Blocks, cp1, sp1, w1) \<Rightarrow> (Blocks, cp1, w1)
            | (Loops, cp1, sp1, w1) \<Rightarrow> (Loops, cp1, w1)))"

definition max_pool_size_panic :: string where
  "max_pool_size_panic = ''max pool size is negative or 0''"

definition NewSessionPool ::
  "world \<Rightarrow> ConnectionPool \<Rightarrow> int \<Rightarrow> (sessionPoolOption \<Rightarrow> sessionPoolOption) list \<Rightarrow>
   (SessionPool option \<times> error option) outcome \<times> ConnectionPool \<times> world" where
  "NewSessionPool w cp n options =
     (if n < 1 then (Panic max_pool_size_panic, cp, w)
      else newSessionPoolFromOption w cp
             (foldl (\<lambda>option o'. o' option)
                \<lparr>so_Size = n, so_Confirmable = False, so_BufferSize = 1,
                 so_Ctx = cp_ctx_done cp\<rparr>
                options))"

text \<open>\<^verbatim>\<open>GetSession\<close>: a \<^verbatim>\<open>select\<close> between the shutdown token and the queue.\<close>

datatype session_case = Shutdown_wins | Queue_wins

definition GetSession ::
  "world \<Rightarrow> SessionPool \<Rightarrow> (Session option \<times> error option) outcome \<times> SessionPool \<times> world" where
  "GetSession w sp =
     (case select_ready w
             ((if sp_ctx_done sp then [Shutdown_wins] else []) @
              (if can_recv (sessions sp) then [Queue_wins] else [])) of
        (None, w1) \<Rightarrow> (Blocks, sp, w1)
      | (Some Shutdown_wins, w1) \<Rightarrow> (Ret (None, Some ErrClosed), sp, w1)
      | (Some Queue_wins, w1) \<Rightarrow>
          (case buf (sessions sp) of
             [] \<Rightarrow> (Ret (None, Some (Errorf_w ''failed to get session: '' ErrClosed)), sp, w1)
           | s # ss \<Rightarrow> (Ret (Some s, None), sp\<lparr>sessions := (sessions sp)\<lparr>buf := ss\<rparr>\<rparr>, w1)))"

text \<open>\<^verbatim>\<open>GetTransientSession\<close>. \<^verbatim>\<open>GetTransientConnection\<close> never returns
  \<^verbatim>\<open>nil, nil\<close>; the branch for it passes the pair on.\<close>

definition GetTransientSession ::
  "world \<Rightarrow> bool \<Rightarrow> ConnectionPool \<Rightarrow> SessionPool \<Rightarrow>
   (Session option \<times> error option) outcome \<times> ConnectionPool \<times> SessionPool \<times> world" where
  "GetTransientSession w ctx cp sp =
     (case GetTransientConnection w ctx cp of
        (Ret (Some c, None), cp1, w1) \<Rightarrow>
          (let transientId = sp_transientID sp + 1 in
           (case NewSession w1 c transientId
                   [SessionWithContext ctx,
                    SessionWithBufferSize (sp_size sp),
                    SessionWithConfirms (sp_confirmable sp),
                    SessionWithCached False,
                    SessionWithAutoCloseConnection True] of
              (s, err, w2) \<Rightarrow> (Ret (s, err), cp1, sp\<lparr>sp_transientID := transientId\<rparr>, w2)))
      | (Ret (_, err), cp1, w1) \<Rightarrow> (Ret (None, err), cp1, sp, w1)
      | (Panic m, cp1, w1) \<Rightarrow> (Panic m, cp1, sp, w1)
      | (Blocks, cp1, w1) \<Rightarrow> (Blocks, cp1, sp, w1)
      | (Loops, cp1, w1) \<Rightarrow> (Loops, cp1, sp, w1))"

text \<open>
  \<^verbatim>\<open>ReturnSession\<close>; the model also returns the session as the call leaves it. The
  last \<^verbatim>\<open>select\<close> (lines 454 to 458) is \<open>enqueue_or_close\<close>.
\<close>

definition enqueue_or_close ::
  "world \<Rightarrow> SessionPool \<Rightarrow> Session \<Rightarrow> unit outcome \<times> SessionPool \<times> Session \<times> world" where
  "enqueue_or_close w sp s =
     (case select_ready w
             ((if sp_ctx_done sp then [Shutdown_wins] else []) @
              (if can_send (sessions sp) then [Queue_wins] else [])) of
        (None, w1) \<Rightarrow> (Blocks, sp, s, w1)
      | (Some Shutdown_wins, w1) \<Rightarrow> (Ret (), sp, Session_Close s, w1)
      | (Some Queue_wins, w1) \<Rightarrow> (Ret (), sp\<lparr>sessions := send s (sessions sp)\<rparr>, s, w1))"

definition ReturnSession ::
  "world \<Rightarrow> SessionPool \<Rightarrow> Session \<Rightarrow> bool \<Rightarrow> unit outcome \<times> SessionPool \<times> Session \<times> world" where
  "ReturnSession w sp s erred =
     (if \<not> Session_IsCached s then (Ret (), sp, Session_Close s, w)
      else if erred then
        (case Session_Recover w s of
           (Some err, s1, w1) \<Rightarrow> (Ret (), sp, s1, w1)
         | (None, s1, w1) \<Rightarrow> enqueue_or_close w1 sp s1)
      else enqueue_or_close w sp (flushConfirms s))"

text \<open>
  \<^verbatim>\<open>Close\<close> of the session pool: the loop receives while the queue has a session
  and closes each one; the model returns the closed sessions. A closed and drained
  channel gives \<^verbatim>\<open>nil\<close>, on which \<^verbatim>\<open>session.Close()\<close> dereferences a nil
  pointer (nothing in the sources closes this channel). The goroutines and the wait
  group are not modelled: every \<^verbatim>\<open>session.Close()\<close> has returned when \<^verbatim>\<open>Close\<close>
  returns.
\<close>

function SessionPool_Close_loop ::
  "SessionPool \<Rightarrow> Session list \<Rightarrow> unit outcome \<times> SessionPool \<times> Session list" where
  "SessionPool_Close_loop sp acc =
     (if can_recv (sessions sp) then
        (case buf (sessions sp) of
           [] \<Rightarrow> (Panic nil_dereference, sp, acc)
         | s # ss \<Rightarrow>
             SessionPool_Close_loop (sp\<lparr>sessions := (sessions sp)\<lparr>buf := ss\<rparr>\<rparr>)
               (acc @ [Session_Close s]))
      else (Ret (), sp, acc))"
  by pat_completeness auto
termination
  by (relation "measure (\<lambda>(sp, acc). length (buf (sessions sp)))") auto

declare SessionPool_Close_loop.simps [simp del]

definition SessionPool_Close :: "SessionPool \<Rightarrow> unit outcome \<times> SessionPool \<times> Session list" where
  "SessionPool_Close sp = SessionPool_Close_loop sp []"

section \<open>Concrete environments and objects\<close>

text \<open>
  An environment in which nothing is listed: every URL parses to itself. A cached
  connection as \<^verbatim>\<open>NewConnection\<close> returns it after a successful dial, and the
  transient one.
\<close>

definition quiet_world :: world where
  "quiet_world =
     \<lparr>dials = [], sleeps = [], picks = [], opens = [], srecovers = [], fired = [],
      parse = (\<lambda>t u. Some u), parseRequestURI = (\<lambda>t u. Some u), defaultAppName = ''app''\<rparr>"

definition open_conn :: Connection where
  "open_conn =
     \<lparr>url = ''amqp://localhost:5672'', name = ''app-cached-connection-0'', conn_id = 0,
      flagged = False, tls = False, conn = Some (AmqpConn False), errors = make_chan 10,
      blockers = make_chan 10, cached = True, ctx_done = False\<rparr>"

definition transient_conn :: Connection where
  "transient_conn = open_conn\<lparr>name := ''app-transient-connection-0'', cached := False\<rparr>"

text \<open>The pool of size one that \<^verbatim>\<open>NewConnectionPool\<close> builds when the dial succeeds
  (lemma \<open>NewConnectionPool_example\<close>), and a session pool of size two over it.\<close>

definition example_pool :: ConnectionPool where
  "example_pool =
     \<lparr>cp_name = ''app'', cp_url = ''amqp://localhost:5672'', cp_size = 1, cp_tls = False,
      cp_ctx_done = False,
      connections = \<lparr>buf = [open_conn], cap = 1, chan_closed = False\<rparr>,
      transientID = 0, concurrentTransient = 0\<rparr>"

text \<open>The same pool when its connection was returned with a broker error.\<close>

definition flagged_pool :: ConnectionPool where
  "flagged_pool =
     example_pool\<lparr>connections :=
       \<lparr>buf = [open_conn\<lparr>flagged := True\<rparr>], cap = 1, chan_closed = False\<rparr>\<rparr>"

definition example_session :: "int \<Rightarrow> Session" where
  "example_session i =
     \<lparr>s_id = i, s_conn = ''app-cached-connection-0'', s_bufferSize = 2, s_confirmable = False,
      s_cached = True, s_autoCloseConnection = False, s_ctx_done = False, s_closed = False,
      s_confirms = []\<rparr>"

definition example_session_pool :: SessionPool where
  "example_session_pool =
     \<lparr>sp_transientID = 0, sp_size = 2, sp_bufferSize = 1, sp_confirmable = False,
      sessions = \<lparr>buf = [example_session 0, example_session 1], cap = 2, chan_closed = False\<rparr>,
      sp_ctx_done = False\<rparr>"


text \<open>The options of a pool of size two, and the pool object that its constructor
  leaves behind when the first dial succeeds and the second is refused.\<close>

definition two_pool_options :: connectionPoolOption where
  "two_pool_options = \<lparr>Name = ''app'', Size = 2, Ctx = False, TLSConfig = False\<rparr>"

definition abandoned_pool :: ConnectionPool where
  "abandoned_pool =
     example_pool\<lparr>cp_size := 2,
       connections := \<lparr>buf = [open_conn], cap = 2, chan_closed = False\<rparr>\<rparr>"

text \<open>The cached connection of id \<open>i\<close> as \<^verbatim>\<open>initCachedConns\<close> gets it from a
  successful \<^verbatim>\<open>NewConnection\<close>, for the URL, the name and the TLS option of a pool
  and the state of the pool's context.\<close>

definition cached_conn :: "string \<Rightarrow> string \<Rightarrow> bool \<Rightarrow> bool \<Rightarrow> int \<Rightarrow> Connection" where
  "cached_conn u nm t ctx i =
     \<lparr>url = u, name = nm @ ''-cached-connection-'' @ string_of_int i, conn_id = i,
      flagged = False, tls = t, conn = Some (AmqpConn False), errors = make_chan 10,
      blockers = make_chan 10, cached = True, ctx_done = ctx\<rparr>"

text \<open>The send wins the \<^verbatim>\<open>select\<close> of \<^verbatim>\<open>initCachedConns\<close> when there is room and
  the context is not done, or the scheduler's number is even.\<close>

definition send_wins :: "world \<Rightarrow> bool" where
  "send_wins w = (case picks w of [] \<Rightarrow> True | p # ps \<Rightarrow> even p)"


section \<open>Properties of the Connection\<close>

lemma select_ready_frame:
  "select_ready w r = (x, w') \<Longrightarrow> dials w' = dials w \<and> sleeps w' = sleeps w"
  by (auto simp: select_ready_def next_pick_def split: if_splits list.splits prod.splits)

lemma error_loop_frame:
  "error_loop err w ch = (e, ch', w') \<Longrightarrow>
     flagged ch' = flagged ch \<and> conn ch' = conn ch \<and> ctx_done ch' = ctx_done ch \<and>
     dials w' = dials w \<and> sleeps w' = sleeps w"
proof (induction err w ch arbitrary: e ch' w' rule: error_loop.induct)
  case (1 err w ch)
  show ?case
  proof (cases "error_ready ch = []")
    case True
    with "1.prems" show ?thesis by (simp add: error_loop.simps)
  next
    case False
    obtain x w1 where sel: "select_ready w (error_ready ch) = (x, w1)" by force
    from sel have w1: "dials w1 = dials w \<and> sleeps w1 = sleeps w" by (rule select_ready_frame)
    show ?thesis
    proof (cases "x = Some Errors_case \<and> buf (errors ch) \<noteq> []")
      case True
      then obtain e0 es where b: "buf (errors ch) = e0 # es" by (cases "buf (errors ch)") auto
      from True have x: "x = Some Errors_case" by simp
      have "error_loop (if err = None then Some e0 else err) w1
              (ch\<lparr>errors := (errors ch)\<lparr>buf := es\<rparr>\<rparr>) = (e, ch', w')"
        using "1.prems" False sel x b by (simp add: error_loop.simps)
      from "1.IH"[OF False sel[symmetric] x refl b this] w1 show ?thesis by simp
    next
      case False2: False
      with "1.prems" False sel w1 show ?thesis
        by (auto simp: error_loop.simps split: option.splits error_case.splits list.splits)
    qed
  qed
qed

lemma next_fired_frame:
  "next_fired w = (b, w') \<Longrightarrow> dials w' = dials w \<and> sleeps w' = sleeps w"
  by (auto simp: next_fired_def split: list.splits)

lemma next_sleep_frame: "next_sleep w = (b, w') \<Longrightarrow> dials w' = dials w"
  by (auto simp: next_sleep_def split: list.splits)

lemma stop_drain_Idle: "stop_drain w Idle = None"
  by (simp add: stop_drain_def observe_def)

lemma stop_drain_Running: "stop_drain w Running = Some (Idle, snd (next_fired w))"
  by (cases "next_fired w") (auto simp: stop_drain_def observe_def split: bool.splits)

lemma stop_drain_Fired: "stop_drain w Fired = Some (Idle, w)"
  by (simp add: stop_drain_def observe_def)

lemma stop_drain_frame:
  "stop_drain w t = Some (t', w') \<Longrightarrow> t' = Idle \<and> dials w' = dials w \<and> sleeps w' = sleeps w"
proof (cases t)
  case Running
  assume "stop_drain w t = Some (t', w')"
  with Running have "t' = Idle" "w' = snd (next_fired w)" by (simp_all add: stop_drain_Running)
  then show ?thesis using next_fired_frame[of w "fst (next_fired w)" w'] by simp
next
  case Fired
  assume "stop_drain w t = Some (t', w')"
  with Fired show ?thesis by (simp add: stop_drain_Fired)
next
  case Idle
  assume "stop_drain w t = Some (t', w')"
  with Idle show ?thesis by (simp add: stop_drain_Idle)
qed

lemma deferred_drain_frame:
  "deferred_drain t w x ch = (r, ch', w') \<Longrightarrow>
     ch' = ch \<and> dials w' = dials w \<and> sleeps w' = sleeps w \<and> (r = Ret x \<or> r = Blocks)"
  by (cases "stop_drain w t") (auto simp: deferred_drain_def dest: stop_drain_frame)

lemma deferred_drain_Idle: "deferred_drain Idle w x ch = (Blocks, ch, w)"
  by (simp add: deferred_drain_def stop_drain_Idle)

text \<open>Pausing touches neither the flag, the handle, the errors nor the dials.\<close>

lemma pause_loop_frame:
  "pause_loop t w ch = (r, ch', w') \<Longrightarrow>
     flagged ch' = flagged ch \<and> conn ch' = conn ch \<and> errors ch' = errors ch \<and> dials w' = dials w"
proof (induction t w ch arbitrary: r ch' w' rule: pause_loop.induct)
  case (1 t w ch)
  show ?case
  proof (cases "\<not> isClosed ch \<and> can_recv (blockers ch) \<and> buf (blockers ch) \<noteq> [] \<and>
                hd (buf (blockers ch))")
    case False
    with "1.prems" show ?thesis
      by (subst (asm) pause_loop.simps)
         (auto simp: Let_def split: if_splits list.splits dest!: deferred_drain_frame)
  next
    case True
    then obtain bs where b: "buf (blockers ch) = True # bs" by (cases "buf (blockers ch)") auto
    let ?ch1 = "ch\<lparr>blockers := (blockers ch)\<lparr>buf := bs\<rparr>\<rparr>"
    show ?thesis
    proof (cases "stop_drain w t")
      case None
      with "1.prems" True b show ?thesis by (subst (asm) pause_loop.simps) auto
    next
      case (Some p)
      then obtain t1 w1 where sd: "stop_drain w t = Some (t1, w1)" by (cases p) auto
      from stop_drain_frame[OF sd] have d1: "dials w1 = dials w" by simp
      obtain c w2 where s: "next_sleep w1 = (c, w2)" by force
      from next_sleep_frame[OF s] d1 have d2: "dials w2 = dials w" by simp
      show ?thesis
      proof (cases c)
        case True
        with "1.prems" \<open>\<not> isClosed ch \<and> _\<close> b sd s d2 show ?thesis
          by (subst (asm) pause_loop.simps) (auto dest!: deferred_drain_frame)
      next
        case False
        with "1.prems" \<open>\<not> isClosed ch \<and> _\<close> b sd s
        have "pause_loop Idle w2 ?ch1 = (r, ch', w')"
          by (subst (asm) pause_loop.simps) simp
        from "1.IH"[OF _ _ b refl _ sd refl s[symmetric] _ this] \<open>\<not> isClosed ch \<and> _\<close> False d2
        show ?thesis by simp
      qed
    qed
  qed
qed

lemma connect_frame:
  "connect w ch = (e, ch', w') \<Longrightarrow>
     flagged ch' = flagged ch \<and> ctx_done ch' = ctx_done ch \<and> sleeps w' = sleeps w"
  by (auto simp: connect_def next_dial_def split: if_splits list.splits dial.splits prod.splits)

text \<open>
  The retry loop never comes to a second dial: when the backoff timer wins, its value
  has been received, and the idiom before \<^verbatim>\<open>continue\<close> blocks on the idle timer.
  So one unit of fuel is as good as any.
\<close>

lemma recover_loop_once:
  "recover_loop (Suc n) retry t w ch =
     (case connect w ch of
        (None, ch', w') \<Rightarrow> deferred_drain t w' None (ch'\<lparr>flagged := False\<rparr>)
      | (Some e, ch', w') \<Rightarrow>
          (if ctx_done ch' then deferred_drain (timer_Reset t) w' (Some recovery_failed) ch'
           else (case next_sleep w' of
                   (True, w'') \<Rightarrow>
                     deferred_drain (timer_Reset t) w'' (Some recovery_failed)
                       (ch'\<lparr>ctx_done := True\<rparr>)
                 | (False, w'') \<Rightarrow> (Blocks, ch', w''))))"
  by (simp add: stop_drain_Idle split: prod.splits option.splits bool.splits)

lemma recover_loop_fuel:
  "recover_loop (Suc n) retry t w ch = recover_loop (Suc m) retry' t w ch"
  by (simp only: recover_loop_once)

text \<open>What \<^verbatim>\<open>recover\<close> does on a closed connection after draining the errors.\<close>

lemma recover_closed:
  assumes "error_loop None w ch = (e, ch1, w1)" "isClosed ch1"
  shows "recover w ch = recover_loop (Suc 0) 0 Idle (snd (next_fired w1)) ch1"
  using assms by (simp add: recover_def stop_drain_Running recover_loop_once del: recover_loop.simps)

lemma recover_loop_cleared:
  assumes "recover_loop (Suc n) retry t w ch = (r, ch', w')" "flagged ch" "\<not> flagged ch'"
  shows "dials w = DialOk # dials w' \<and> conn ch' = Some (AmqpConn False) \<and>
         errors ch' = make_chan 10 \<and> ctx_done ch' = ctx_done ch \<and>
         (t = Idle \<longrightarrow> r = Blocks)"
proof -
  from assms(2) have cl: "isClosed ch" by (simp add: isClosed_def)
  obtain d w1 where nd: "next_dial w = (d, w1)" by force
  show ?thesis
  proof (cases d)
    case DialOk
    with nd have dw: "dials w = DialOk # dials w1"
      by (auto simp: next_dial_def split: list.splits)
    from cl nd DialOk have c: "connect w ch =
        (None, ch\<lparr>conn := Some (AmqpConn False), errors := make_chan 10, blockers := make_chan 10\<rparr>, w1)"
      by (simp add: connect_def)
    with assms(1) have dd: "deferred_drain t w1 None
        (ch\<lparr>conn := Some (AmqpConn False), errors := make_chan 10, blockers := make_chan 10,
            flagged := False\<rparr>) = (r, ch', w')"
      by (simp add: recover_loop_once del: recover_loop.simps)
    from deferred_drain_frame[OF dd] dw have "dials w = DialOk # dials w'"
      "conn ch' = Some (AmqpConn False)" "errors ch' = make_chan 10" "ctx_done ch' = ctx_done ch"
      by auto
    moreover have "r = Blocks" if "t = Idle"
      using dd that by (simp add: deferred_drain_Idle)
    ultimately show ?thesis by simp
  next
    case (DialFail x)
    with cl nd have c: "connect w ch = (Some (Errorf_wv ErrConnectionFailed (Cause x)), ch, w1)"
      by (simp add: connect_def)
    with assms(1) have "flagged ch' = flagged ch"
      by (auto simp: recover_loop_once simp del: recover_loop.simps
            split: if_splits prod.splits bool.splits dest!: deferred_drain_frame)
    with assms(2,3) show ?thesis by simp
  qed
qed

lemma recover_loop_Idle_no_success:
  "isClosed ch \<Longrightarrow> fst (recover_loop (Suc n) retry Idle w ch) \<noteq> Ret None"
proof -
  assume cl: "isClosed ch"
  obtain d w1 where nd: "next_dial w = (d, w1)" by force
  show ?thesis
  proof (cases d)
    case DialOk
    with cl nd show ?thesis
      by (simp add: recover_loop_once connect_def deferred_drain_Idle del: recover_loop.simps)
  next
    case (DialFail x)
    with cl nd have c: "connect w ch = (Some (Errorf_wv ErrConnectionFailed (Cause x)), ch, w1)"
      by (simp add: connect_def)
    obtain b w2 where s: "next_sleep w1 = (b, w2)" by force
    show ?thesis
      using c s
      by (cases b; cases "ctx_done ch")
         (auto simp: recover_loop_once deferred_drain_def simp del: recover_loop.simps
            split: option.splits)
  qed
qed

text \<open>
  \<^verbatim>\<open>Recover\<close> on a flagged connection never returns success: it blocks in one of the
  two timer idioms, or returns the error of a shutdown during the first backoff.
\<close>

lemma Recover_flagged_no_success:
  assumes "flagged ch"
  shows "fst (Recover w ch) \<noteq> Ret None"
proof -
  obtain e ch1 w1 where el: "error_loop None w ch = (e, ch1, w1)"
    by (cases "error_loop None w ch") auto
  from error_loop_frame[OF el] assms have cl: "isClosed ch1" by (simp add: isClosed_def)
  from recover_closed[OF el cl] recover_loop_Idle_no_success[OF cl]
  show ?thesis by (simp add: Recover_def del: recover_loop.simps)
qed

lemma Recover_frame:
  assumes "Recover w ch = (r, ch', w')" "flagged ch" "\<not> flagged ch'"
  shows "r = Blocks \<and> dialled_ok w w' \<and> conn ch' = Some (AmqpConn False) \<and>
         errors ch' = make_chan 10 \<and> ctx_done ch' = ctx_done ch"
proof -
  obtain e ch1 w1 where el: "error_loop None w ch = (e, ch1, w1)"
    by (cases "error_loop None w ch") auto
  from error_loop_frame[OF el] assms(2)
  have f1: "flagged ch1" "dials w1 = dials w" "ctx_done ch1 = ctx_done ch" by simp_all
  then have cl: "isClosed ch1" by (simp add: isClosed_def)
  let ?w2 = "snd (next_fired w1)"
  have d2: "dials ?w2 = dials w" using next_fired_frame[of w1 "fst (next_fired w1)" ?w2] f1 by simp
  from recover_closed[OF el cl] assms(1)
  have rl: "recover_loop (Suc 0) 0 Idle ?w2 ch1 = (r, ch', w')" by (simp add: Recover_def del: recover_loop.simps)
  from recover_loop_cleared[OF rl f1(1) assms(3)] d2 f1
  have "dials w = DialOk # dials w'" "conn ch' = Some (AmqpConn False)"
    "errors ch' = make_chan 10" "ctx_done ch' = ctx_done ch" "r = Blocks"
    by simp_all
  moreover from \<open>dials w = DialOk # dials w'\<close> have "dialled_ok w w'"
    by (auto simp: dialled_ok_def intro!: exI[of _ 0])
  ultimately show ?thesis by simp
qed

lemma apply_op_keeps_flag:
  assumes "apply_op w op ch = (r, ch', w')" "flagged ch" "op \<noteq> Op_Recover"
  shows "flagged ch'"
proof (cases op)
  case (Op_Flag b)
  with assms show ?thesis by (auto simp: Flag_def)
next
  case Op_Connect
  with assms show ?thesis by (auto simp: Connect_def split: prod.splits dest: connect_frame)
next
  case Op_PauseOnFlowControl
  with assms show ?thesis
    by (auto simp: pauseOnFlowControl_def split: prod.splits dest: pause_loop_frame)
next
  case Op_IsClosed
  with assms show ?thesis by auto
next
  case Op_Close
  with assms show ?thesis by (auto simp: Close_def Let_def split: option.splits)
next
  case Op_Error
  with assms show ?thesis by (auto simp: Error_def split: prod.splits dest: error_loop_frame)
next
  case Op_Recover
  with assms show ?thesis by simp
qed

lemma run_ops_keeps_flag:
  "run_ops w ops ch = (r, ch', w') \<Longrightarrow> flagged ch \<Longrightarrow> Op_Recover \<notin> set ops \<Longrightarrow> flagged ch'"
proof (induction ops arbitrary: w ch)
  case Nil
  then show ?case by simp
next
  case (Cons op ops)
  obtain b ch1 w1 where a: "apply_op w op ch = (b, ch1, w1)" by (cases "apply_op w op ch") auto
  from apply_op_keeps_flag[OF a Cons.prems(2)] Cons.prems(3) have f: "flagged ch1" by auto
  show ?case
  proof (cases b)
    case True
    with Cons.prems(1) a have "run_ops w1 ops ch1 = (r, ch', w')" by simp
    from Cons.IH[OF this f] Cons.prems(3) show ?thesis by simp
  next
    case False
    with Cons.prems(1) a f show ?thesis by simp
  qed
qed

text \<open>
  Claim C8. \<^verbatim>\<open>Flag(erred)\<close> sets the flag when \<open>erred\<close> is true and leaves the
  connection as it is otherwise: the flag afterwards is the flag before or \<open>erred\<close>, so
  it only ever goes from false to true. An operation of the connection that finds the
  flag set and leaves it cleared, whether it returns or not, is a \<^verbatim>\<open>Recover\<close> that
  reached a successful dial, and a sequence of operations without \<^verbatim>\<open>Recover\<close>
  keeps a set flag set.
\<close>

theorem flag_sticky_until_recover:
  "Flag b ch = ch\<lparr>flagged := flagged ch \<or> b\<rparr> \<and>
   (\<forall>w op r ch' w'. apply_op w op ch = (r, ch', w') \<and> flagged ch \<and> \<not> flagged ch' \<longrightarrow>
       op = Op_Recover \<and> dialled_ok w w') \<and>
   (\<forall>w ops r ch' w'. run_ops w ops ch = (r, ch', w') \<and> flagged ch \<and> Op_Recover \<notin> set ops \<longrightarrow>
       flagged ch')"
proof (intro conjI allI impI)
  show "Flag b ch = ch\<lparr>flagged := flagged ch \<or> b\<rparr>" by (cases "flagged ch") (auto simp: Flag_def)
next
  fix w op r ch' w'
  assume a: "apply_op w op ch = (r, ch', w') \<and> flagged ch \<and> \<not> flagged ch'"
  then show "op = Op_Recover" using apply_op_keeps_flag[of w op ch r ch' w'] by blast
  then have "\<exists>res. Recover w ch = (res, ch', w')" using a by (auto split: prod.splits)
  then show "dialled_ok w w'" using a Recover_frame by blast
next
  fix w ops r ch' w'
  assume "run_ops w ops ch = (r, ch', w') \<and> flagged ch \<and> Op_Recover \<notin> set ops"
  then show "flagged ch'" using run_ops_keeps_flag by blast
qed

text \<open>The equations that evaluate the operations of a connection on concrete input.\<close>

lemmas conn_eval = Recover_def recover_def Flag_def Error_def Connect_def Close_def
  error_loop.simps error_ready_def can_recv_def
  make_chan_def open_conn_def quiet_world_def isClosed_def isShutdown_def connect_def
  next_dial_def next_sleep_def next_fired_def stop_drain_def observe_def deferred_drain_def
  timer_Reset_def pauseOnFlowControl_def pause_loop.simps

theorem flag_sticky_until_recover_witness:
  "flagged (open_conn\<lparr>flagged := True\<rparr>) \<and>
   apply_op (quiet_world\<lparr>dials := [DialOk]\<rparr>) Op_Recover (open_conn\<lparr>flagged := True\<rparr>) =
     (False, open_conn, quiet_world) \<and>
   \<not> flagged open_conn \<and>
   dialled_ok (quiet_world\<lparr>dials := [DialOk]\<rparr>) quiet_world \<and>
   run_ops quiet_world [Op_Flag False, Op_Error, Op_Connect, Op_PauseOnFlowControl, Op_Close]
       (open_conn\<lparr>flagged := True\<rparr>) =
     (True, open_conn\<lparr>flagged := True, conn := Some (AmqpConn True), ctx_done := True\<rparr>,
      quiet_world) \<and>
   flagged (open_conn\<lparr>flagged := True, conn := Some (AmqpConn True), ctx_done := True\<rparr>)"
proof -
  let ?w = "quiet_world\<lparr>dials := [DialOk]\<rparr>"
  let ?c = "open_conn\<lparr>flagged := True\<rparr>"
  let ?c2 = "open_conn\<lparr>flagged := True, conn := Some (AmqpConn True), ctx_done := True\<rparr>"
  let ?ops = "[Op_Flag False, Op_Error, Op_Connect, Op_PauseOnFlowControl, Op_Close]"
  have f: "flagged ?c" by simp
  have nf: "\<not> flagged open_conn" by (simp add: open_conn_def)
  have a: "apply_op ?w Op_Recover ?c = (False, open_conn, quiet_world)"
    by (simp add: conn_eval)
  have r: "run_ops quiet_world ?ops ?c = (True, ?c2, quiet_world)"
    by (simp add: conn_eval)
  have nr: "Op_Recover \<notin> set ?ops" by simp
  from flag_sticky_until_recover[of False ?c]
  have s1: "apply_op ?w Op_Recover ?c = (False, open_conn, quiet_world) \<and> flagged ?c \<and>
              \<not> flagged open_conn \<longrightarrow> Op_Recover = Op_Recover \<and> dialled_ok ?w quiet_world"
    and s2: "run_ops quiet_world ?ops ?c = (True, ?c2, quiet_world) \<and> flagged ?c \<and>
              Op_Recover \<notin> set ?ops \<longrightarrow> flagged ?c2"
    by blast+
  from s1 a f nf have d: "dialled_ok ?w quiet_world" by blast
  from s2 r f nr have f2: "flagged ?c2" by blast
  from f a nf d r f2 show ?thesis by blast
qed

text \<open>
  Claim C9, at the failing input: an open connection that is not shut down is flagged
  and recovered. When the first dial succeeds, \<^verbatim>\<open>recover\<close> binds the new handle and
  clears the flag, and then blocks for ever in the deferred
  \<^verbatim>\<open>if !timer.Stop() { <-timer.C }\<close>, the timer being stopped and drained already.
  When the first dial is refused and the backoff elapses, it blocks for ever in the
  same idiom before \<^verbatim>\<open>continue\<close>, and the second dial, which would succeed, is never
  made. In neither run does \<^verbatim>\<open>Recover\<close> return, so no \<^verbatim>\<open>Error()\<close> follows it
  (by lemma \<open>Recover_flagged_no_success\<close> no run returns success).
\<close>

theorem recover_after_flag_never_returns:
  "Recover (quiet_world\<lparr>dials := [DialOk]\<rparr>) (Flag True open_conn) =
     (Blocks, open_conn, quiet_world) \<and>
   Recover (quiet_world\<lparr>dials := [DialFail ''refused'', DialOk]\<rparr>) (Flag True open_conn) =
     (Blocks, open_conn\<lparr>flagged := True\<rparr>, quiet_world\<lparr>dials := [DialOk]\<rparr>)"
  by (simp add: conn_eval)

section \<open>Properties of the pools\<close>

text \<open>The equations that evaluate the operations of the pools on concrete input.\<close>

lemmas pool_eval = NewConnectionPool_def newConnectionPoolFromOption_def initCachedConns_def
  initCachedConns_from.simps init_ready_def deriveConnection_def NewConnection_def select_ready_def next_pick_def
  can_send_def send_def example_pool_def GetConnection_def get_ready_def IsFlagged_def IsCached_def
  ReturnConnection_def GetTransientConnection_def nextTransientID_def incTransient_def decTransient_def
  string_of_int_def string_of_nat.simps Let_def

lemmas session_eval = NewSessionPool_def newSessionPoolFromOption_def initCachedSessions_def
  initCachedSessions_from.simps deriveSession_def NewSession_def next_open_def
  GetTransientSession_def GetSession_def ReturnSession_def enqueue_or_close_def Session_IsCached_def
  Session_Close_def Session_Recover_def flushConfirms_def next_srecover_def SessionPool_Close_def
  SessionPool_Close_loop.simps example_session_pool_def example_session_def flaggable_def
  cancellation_class_def

lemma NewConnectionPool_example:
  "NewConnectionPool (quiet_world\<lparr>dials := [DialOk]\<rparr>) False ''amqp://localhost:5672'' 1 [] =
     (Ret (Some example_pool, None), Some example_pool, quiet_world)"
  by (simp add: pool_eval conn_eval)

lemma NewSessionPool_example:
  "NewSessionPool quiet_world example_pool 2 [] =
     (Ret (Some example_session_pool, None), example_pool, quiet_world)"
  by (simp add: session_eval pool_eval conn_eval)

text \<open>
  Claim C3, at the failing input: the pool of size one, a caller whose context is not
  done, and an environment whose first dial is refused (the second would succeed).
  \<^verbatim>\<open>NewConnection\<close> returns \<^verbatim>\<open>nil, err\<close>, and \<^verbatim>\<open>conn.Recover(ctx)\<close> on that
  \<^verbatim>\<open>nil\<close> panics: the call neither returns a Connection nor an error. The transient
  id is used up and the live-transient counter is not incremented.
\<close>

theorem GetTransientConnection_nil_dereference:
  "GetTransientConnection (quiet_world\<lparr>dials := [DialFail ''refused'', DialOk]\<rparr>) False example_pool =
     (Panic nil_dereference, example_pool\<lparr>transientID := 1\<rparr>, quiet_world\<lparr>dials := [DialOk]\<rparr>)"
  by (simp add: pool_eval conn_eval)

text \<open>
  Claim C4, at the failing input: a session pool of size two built with the default
  options, so with \<^verbatim>\<open>BufferSize\<close> 1. Both cached sessions and a transient session
  are created with \<^verbatim>\<open>SessionWithBufferSize(sp.size)\<close>, that is with buffer size two;
  the field \<^verbatim>\<open>bufferSize\<close> of the pool, which holds the option, is never read.
\<close>

theorem session_buffer_size_is_pool_size:
  "NewSessionPool quiet_world example_pool 2 [] =
     (Ret (Some example_session_pool, None), example_pool, quiet_world) \<and>
   sp_bufferSize example_session_pool = 1 \<and>
   map s_bufferSize (buf (sessions example_session_pool)) = [2, 2] \<and>
   (case GetTransientSession (quiet_world\<lparr>dials := [DialOk]\<rparr>) False example_pool example_session_pool of
      (r, cp, sp, w) \<Rightarrow>
        (case r of Ret (Some s, None) \<Rightarrow> s_bufferSize s = 2 \<and> sp_bufferSize sp = 1 | _ \<Rightarrow> False))"
  by (simp add: session_eval pool_eval conn_eval)

text \<open>
  Claim C7 fails for the session pool: \<^verbatim>\<open>NewSessionPool\<close> with size 0 does not return
  an error at all.
\<close>

theorem NewSessionPool_size_0_counterexample:
  "\<not> (\<exists>p e cp w. NewSessionPool quiet_world example_pool 0 [] = (Ret (p, Some e), cp, w) \<and>
        errors_Is e ErrInvalidPoolSize)"
  by (simp add: NewSessionPool_def)

text \<open>
  Claim C7, amended: \<^verbatim>\<open>NewConnectionPool\<close> with size 0 returns no pool and the error
  \<^verbatim>\<open>errInvalidPoolSize\<close>, wrapped with the size; \<^verbatim>\<open>NewSessionPool\<close> with size 0
  panics with the message "max pool size is negative or 0".
\<close>

theorem pool_size_0:
  "fst (NewConnectionPool w ctx connectUrl 0 options) = Ret (None, Some (Errorf_wd ErrInvalidPoolSize 0)) \<and>
   errors_Is (Errorf_wd ErrInvalidPoolSize 0) ErrInvalidPoolSize \<and>
   fst (NewSessionPool w cp 0 soptions) = Panic max_pool_size_panic"
  by (simp add: NewConnectionPool_def NewSessionPool_def)


lemma Recover_success_unflagged:
  assumes "Recover w ch = (Ret None, ch', w')"
  shows "\<not> flagged ch'"
proof (rule notI)
  assume f': "flagged ch'"
  have "\<not> flagged ch"
    using Recover_flagged_no_success[of ch w] assms by auto
  obtain e ch1 w1 where el: "error_loop None w ch = (e, ch1, w1)"
    by (cases "error_loop None w ch") auto
  from error_loop_frame[OF el] \<open>\<not> flagged ch\<close> have nf1: "\<not> flagged ch1" by simp
  show False
  proof (cases "e = None \<and> \<not> isClosed ch1")
    case True
    obtain r ch2 w2 where p: "pause_loop Running w1 ch1 = (r, ch2, w2)"
      by (cases "pause_loop Running w1 ch1") auto
    from pause_loop_frame[OF p] nf1 have "\<not> flagged ch2" by simp
    moreover from assms el True p have "ch' = ch2"
      by (cases r) (auto simp: Recover_def recover_def pauseOnFlowControl_def)
    ultimately show False using f' by simp
  next
    case False
    let ?w2 = "snd (next_fired w1)"
    from assms el False
    have rl: "recover_loop (Suc (length (dials ?w2) + length (sleeps ?w2))) 0 Idle ?w2 ch1 = (Ret None, ch', w')"
      by (auto simp: Recover_def recover_def stop_drain_Running simp del: recover_loop.simps)
    obtain x chx wx where c: "connect ?w2 ch1 = (x, chx, wx)" by (cases "connect ?w2 ch1") auto
    show False
    proof (cases x)
      case None
      with rl c show False by (simp add: recover_loop_once deferred_drain_Idle del: recover_loop.simps)
    next
      case (Some y)
      from connect_frame[OF c] nf1 have "\<not> flagged chx" by simp
      with rl c Some f' show False
        by (auto simp: recover_loop_once simp del: recover_loop.simps
              split: if_splits prod.splits bool.splits dest!: deferred_drain_frame)
    qed
  qed
qed

text \<open>
  Claim C1. A connection that \<^verbatim>\<open>GetConnection\<close> returns is not flagged. When the
  connection received from the queue is flagged, the call is decided by \<^verbatim>\<open>Recover\<close>
  on that connection: only when \<^verbatim>\<open>Recover\<close> returns success does the call return
  the connection, as \<^verbatim>\<open>Recover\<close> left it; when \<^verbatim>\<open>Recover\<close> fails the call
  returns an error wrapping its error, and no connection; and the call does not return
  when \<^verbatim>\<open>Recover\<close> does not.
\<close>

theorem GetConnection_recovers_flagged:
  "(\<forall>c. fst (GetConnection w ctx cp) = Ret (Some c, None) \<longrightarrow> \<not> flagged c) \<and>
   (\<forall>w1 c cs. select_ready w (get_ready ctx cp) = (Some Recv_case, w1) \<and>
        buf (connections cp) = c # cs \<and> flagged c \<longrightarrow>
        fst (GetConnection w ctx cp) =
          (case fst (Recover w1 c) of
             Ret None \<Rightarrow> Ret (Some (fst (snd (Recover w1 c))), None)
           | Ret (Some err) \<Rightarrow> Ret (None, Some (Errorf_w ''failed to get connection: '' err))
           | Panic m \<Rightarrow> Panic m
           | Blocks \<Rightarrow> Blocks
           | Loops \<Rightarrow> Loops))"
proof (intro conjI allI impI)
  fix c
  assume a: "fst (GetConnection w ctx cp) = Ret (Some c, None)"
  obtain x w1 where sel: "select_ready w (get_ready ctx cp) = (x, w1)" by force
  show "\<not> flagged c"
  proof (cases "x = Some Recv_case \<and> buf (connections cp) \<noteq> []")
    case True
    then obtain c0 cs where b: "buf (connections cp) = c0 # cs" by (cases "buf (connections cp)") auto
    show ?thesis
    proof (cases "flagged c0")
      case True
      obtain r c' w2 where rc: "Recover w1 c0 = (r, c', w2)" by (cases "Recover w1 c0") auto
      with a sel b True \<open>x = Some Recv_case \<and> _\<close> have "r = Ret None" "c' = c"
        by (auto simp: GetConnection_def IsFlagged_def Let_def
              split: outcome.splits option.splits)
      with rc Recover_success_unflagged show ?thesis by blast
    next
      case False
      with a sel b \<open>x = Some Recv_case \<and> _\<close> show ?thesis
        by (auto simp: GetConnection_def IsFlagged_def Let_def)
    qed
  next
    case False
    with a sel show ?thesis
      by (auto simp: GetConnection_def split: option.splits get_case.splits list.splits)
  qed
next
  fix w1 c cs
  assume a: "select_ready w (get_ready ctx cp) = (Some Recv_case, w1) \<and>
        buf (connections cp) = c # cs \<and> flagged c"
  obtain r c' w2 where rc: "Recover w1 c = (r, c', w2)" by (cases "Recover w1 c") auto
  with a show "fst (GetConnection w ctx cp) =
          (case fst (Recover w1 c) of
             Ret None \<Rightarrow> Ret (Some (fst (snd (Recover w1 c))), None)
           | Ret (Some err) \<Rightarrow> Ret (None, Some (Errorf_w ''failed to get connection: '' err))
           | Panic m \<Rightarrow> Panic m
           | Blocks \<Rightarrow> Blocks
           | Loops \<Rightarrow> Loops)"
    by (auto simp: GetConnection_def IsFlagged_def Let_def split: outcome.splits option.splits)
qed

theorem GetConnection_recovers_flagged_witness:
  "fst (GetConnection quiet_world False example_pool) = Ret (Some open_conn, None) \<and>
   \<not> flagged open_conn \<and>
   select_ready (quiet_world\<lparr>sleeps := [True]\<rparr>) (get_ready False flagged_pool) =
     (Some Recv_case, quiet_world\<lparr>sleeps := [True]\<rparr>) \<and>
   buf (connections flagged_pool) = [open_conn\<lparr>flagged := True\<rparr>] \<and>
   flagged (open_conn\<lparr>flagged := True\<rparr>) \<and>
   Recover (quiet_world\<lparr>sleeps := [True]\<rparr>) (open_conn\<lparr>flagged := True\<rparr>) =
     (Ret (Some recovery_failed), open_conn\<lparr>flagged := True, ctx_done := True\<rparr>, quiet_world) \<and>
   fst (GetConnection (quiet_world\<lparr>sleeps := [True]\<rparr>) False flagged_pool) =
     Ret (None, Some (Errorf_w ''failed to get connection: '' recovery_failed))"
proof -
  let ?w = "quiet_world\<lparr>sleeps := [True]\<rparr>"
  let ?c = "open_conn\<lparr>flagged := True\<rparr>"
  have g: "fst (GetConnection quiet_world False example_pool) = Ret (Some open_conn, None)"
    by (simp add: pool_eval conn_eval)
  have s: "select_ready ?w (get_ready False flagged_pool) = (Some Recv_case, ?w)"
    by (simp add: flagged_pool_def pool_eval can_recv_def quiet_world_def)
  have b: "buf (connections flagged_pool) = [?c]" by (simp add: flagged_pool_def)
  have f: "flagged ?c" by simp
  have r: "Recover ?w ?c =
      (Ret (Some recovery_failed), open_conn\<lparr>flagged := True, ctx_done := True\<rparr>, quiet_world)"
    by (simp add: conn_eval)
  from GetConnection_recovers_flagged[of quiet_world False example_pool] g
  have nf: "\<not> flagged open_conn" by blast
  from GetConnection_recovers_flagged[of ?w False flagged_pool] s b f
  have "fst (GetConnection ?w False flagged_pool) =
          (case fst (Recover ?w ?c) of
             Ret None \<Rightarrow> Ret (Some (fst (snd (Recover ?w ?c))), None)
           | Ret (Some err) \<Rightarrow> Ret (None, Some (Errorf_w ''failed to get connection: '' err))
           | Panic m \<Rightarrow> Panic m
           | Blocks \<Rightarrow> Blocks
           | Loops \<Rightarrow> Loops)"
    by blast
  with r have e: "fst (GetConnection ?w False flagged_pool) =
     Ret (None, Some (Errorf_w ''failed to get connection: '' recovery_failed))"
    by simp
  from g nf s b f r e show ?thesis by blast
qed



lemma NewConnection_value:
  "NewConnection w ctx u nm i t cch =
     (case parse w t u of
        None \<Rightarrow> (None, Some (Errorf_wv ErrInvalidConnectURL (Cause ''url.Parse'')), w)
      | Some x \<Rightarrow>
          (case next_dial w of
             (DialFail y, w1) \<Rightarrow> (None, Some (Errorf_wv ErrConnectionFailed (Cause y)), w1)
           | (DialOk, w1) \<Rightarrow>
               (Some \<lparr>url = x, name = nm, conn_id = i, flagged = False, tls = t,
                      conn = Some (AmqpConn False), errors = make_chan 10,
                      blockers = make_chan 10, cached = cch, ctx_done = ctx\<rparr>, None, w1)))"
  by (simp add: NewConnection_def Connect_def connect_def isClosed_def
        split: option.splits prod.splits dial.splits)

lemma init_step_stop:
  "\<not> i < cp_size cp \<Longrightarrow> initCachedConns_from i w cp = (None, cp, w)"
  by (subst initCachedConns_from.simps) simp

lemma init_step_err:
  "i < cp_size cp \<Longrightarrow> deriveConnection w (cp_ctx_done cp) cp i True = (p, Some x, w1) \<Longrightarrow>
     initCachedConns_from i w cp = (Some (Errorf_wv ErrPoolInitializationFailed x), cp, w1)"
  by (subst initCachedConns_from.simps) (simp split: option.splits)

lemma init_step_send:
  "i < cp_size cp \<Longrightarrow> deriveConnection w (cp_ctx_done cp) cp i True = (Some c, None, w1) \<Longrightarrow>
   init_ready cp \<noteq> [] \<Longrightarrow> select_ready w1 (init_ready cp) = (Some Send_case, w2) \<Longrightarrow>
     initCachedConns_from i w cp =
       initCachedConns_from (i + 1) w2 (cp\<lparr>connections := send c (connections cp)\<rparr>)"
  by (subst initCachedConns_from.simps) simp

lemma select_send:
  assumes "can_send (connections cp)" "cp_ctx_done cp \<longrightarrow> send_wins w"
  shows "init_ready cp \<noteq> [] \<and> select_ready w (init_ready cp) = (Some Send_case, snd (next_pick w))"
proof (cases "cp_ctx_done cp")
  case False
  with assms(1) show ?thesis
    by (simp add: init_ready_def select_ready_def split: prod.splits)
next
  case True
  with assms have "fst (next_pick w) mod 2 = 0"
    by (auto simp: send_wins_def next_pick_def split: list.splits)
  with True assms(1) show ?thesis
    by (cases "next_pick w") (auto simp: init_ready_def select_ready_def numeral_2_eq_2)
qed

lemma next_pick_frame:
  "dials (snd (next_pick w)) = dials w" "parse (snd (next_pick w)) = parse w"
  "picks (snd (next_pick w)) = tl (picks w)"
  by (auto simp: next_pick_def split: list.splits)

lemma initCachedConns_from_run:
  assumes "dials w = replicate m DialOk @ DialFail c # rest"
    and "parse w (cp_tls cp) (cp_url cp) = Some u"
    and "cp_ctx_done cp \<longrightarrow> list_all even (take m (picks w))"
    and "length (buf (connections cp)) + m < cap (connections cp)"
    and "j + int m < cp_size cp"
  shows "\<exists>w'. initCachedConns_from j w cp =
           (Some (Errorf_wv ErrPoolInitializationFailed (Errorf_wv ErrConnectionFailed (Cause c))),
            cp\<lparr>connections := (connections cp)\<lparr>buf := buf (connections cp) @
                 map (\<lambda>i. cached_conn u (cp_name cp) (cp_tls cp) (cp_ctx_done cp) (j + int i)) [0..<m]\<rparr>\<rparr>,
            w') \<and> dials w' = rest"
  using assms
proof (induction m arbitrary: j w cp)
  case 0
  then have lt: "j < cp_size cp" and d: "dials w = DialFail c # rest" by simp_all
  from d have nd: "next_dial w = (DialFail c, w\<lparr>dials := rest\<rparr>)" by (simp add: next_dial_def)
  have "deriveConnection w (cp_ctx_done cp) cp j True =
          (None, Some (Errorf_wv ErrConnectionFailed (Cause c)), w\<lparr>dials := rest\<rparr>)"
    using "0.prems"(2) nd by (simp add: deriveConnection_def NewConnection_value)
  from init_step_err[OF lt this] show ?case by simp
next
  case (Suc m)
  let ?c = "cached_conn u (cp_name cp) (cp_tls cp) (cp_ctx_done cp) j"
  let ?w1 = "w\<lparr>dials := replicate m DialOk @ DialFail c # rest\<rparr>"
  let ?w2 = "snd (next_pick ?w1)"
  let ?cp = "cp\<lparr>connections := send ?c (connections cp)\<rparr>"
  from Suc.prems have lt: "j < cp_size cp" by simp
  from Suc.prems(1) have nd: "next_dial w = (DialOk, ?w1)" by (simp add: next_dial_def)
  have dc: "deriveConnection w (cp_ctx_done cp) cp j True = (Some ?c, None, ?w1)"
    using Suc.prems(2) nd by (simp add: deriveConnection_def NewConnection_value cached_conn_def)
  have cs: "can_send (connections cp)" using Suc.prems(4) by (simp add: can_send_def)
  have sw: "cp_ctx_done cp \<longrightarrow> send_wins ?w1"
    using Suc.prems(3) by (cases "picks w") (auto simp: send_wins_def)
  from select_send[OF cs sw]
  have ne: "init_ready cp \<noteq> []" and sel: "select_ready ?w1 (init_ready cp) = (Some Send_case, ?w2)"
    by simp_all
  have step: "initCachedConns_from j w cp = initCachedConns_from (j + 1) ?w2 ?cp"
    by (rule init_step_send[OF lt dc ne sel])
  have p1: "dials ?w2 = replicate m DialOk @ DialFail c # rest" by (simp add: next_pick_frame)
  have p2: "parse ?w2 (cp_tls ?cp) (cp_url ?cp) = Some u"
    using Suc.prems(2) by (simp add: next_pick_frame)
  have p3: "cp_ctx_done ?cp \<longrightarrow> list_all even (take m (picks ?w2))"
    using Suc.prems(3) by (cases "picks w") (auto simp: next_pick_frame)
  have p4: "length (buf (connections ?cp)) + m < cap (connections ?cp)"
    using Suc.prems(4) by (simp add: send_def)
  have p5: "(j + 1) + int m < cp_size ?cp" using Suc.prems(5) by simp
  from Suc.IH[OF p1 p2 p3 p4 p5] obtain w' where
    r: "initCachedConns_from (j + 1) ?w2 ?cp =
           (Some (Errorf_wv ErrPoolInitializationFailed (Errorf_wv ErrConnectionFailed (Cause c))),
            ?cp\<lparr>connections := (connections ?cp)\<lparr>buf := buf (connections ?cp) @
                 map (\<lambda>i. cached_conn u (cp_name ?cp) (cp_tls ?cp) (cp_ctx_done ?cp) (j + 1 + int i)) [0..<m]\<rparr>\<rparr>,
            w')" and d: "dials w' = rest"
    by blast
  have "buf (connections ?cp) @
          map (\<lambda>i. cached_conn u (cp_name ?cp) (cp_tls ?cp) (cp_ctx_done ?cp) (j + 1 + int i)) [0..<m] =
        buf (connections cp) @
          map (\<lambda>i. cached_conn u (cp_name cp) (cp_tls cp) (cp_ctx_done cp) (j + int i)) [0..<Suc m]"
    by (simp add: send_def map_upt_Suc add.assoc del: upt_Suc)
  with step r d show ?case by (auto simp: send_def simp del: upt_Suc)
qed

lemma cached_conn_open: "isClosed (cached_conn u nm t ctx i) = ctx"
  by (simp add: cached_conn_def isClosed_def isShutdown_def)

text \<open>
  Claim C2, amended. When the first \<open>k\<close> creations succeed and the next one, still
  within the size, fails, the constructor returns no pool and an error that wraps the
  cause of the failure in \<^verbatim>\<open>ErrPoolInitializationFailed\<close>; and it closes nothing: the
  pool object it abandons holds exactly the \<open>k\<close> connections created, in the order of
  their creation, each as \<^verbatim>\<open>NewConnection\<close> returned it, with its handle open and
  unflagged. (When the pool's context is done already, each send has to win its
  \<^verbatim>\<open>select\<close> against the context for the run to reach the failing creation.)
\<close>

theorem failed_creation_closes_nothing:
  assumes "parseRequestURI w (TLSConfig option) connectUrl = Some u"
    and "parse w (TLSConfig option) u = Some u'"
    and "dials w = replicate k DialOk @ DialFail c # rest"
    and "int k < Size option"
    and "Ctx option \<longrightarrow> list_all even (take k (picks w))"
  shows "(\<exists>w'. newConnectionPoolFromOption w connectUrl option =
           (Ret (None, Some (Errorf_wv ErrPoolInitializationFailed
                               (Errorf_wv ErrConnectionFailed (Cause c)))),
            Some \<lparr>cp_name = Name option, cp_url = u, cp_size = Size option,
                  cp_tls = TLSConfig option, cp_ctx_done = Ctx option,
                  connections =
                    \<lparr>buf = map (\<lambda>i. cached_conn u' (Name option) (TLSConfig option) (Ctx option)
                                      (int i)) [0..<k],
                     cap = nat (Size option), chan_closed = False\<rparr>,
                  transientID = 0, concurrentTransient = 0\<rparr>,
            w') \<and> dials w' = rest) \<and>
         (\<forall>i. conn (cached_conn u' (Name option) (TLSConfig option) (Ctx option) i) =
                Some (AmqpConn False) \<and>
              isClosed (cached_conn u' (Name option) (TLSConfig option) (Ctx option) i) = Ctx option)"
proof -
  let ?cp = "\<lparr>cp_name = Name option, cp_url = u, cp_size = Size option,
              cp_tls = TLSConfig option, cp_ctx_done = Ctx option,
              connections = make_chan (nat (Size option)),
              transientID = 0, concurrentTransient = 0\<rparr>"
  from assms(4) have sz: "\<not> Size option < 0" by simp
  have p2: "parse w (cp_tls ?cp) (cp_url ?cp) = Some u'" using assms(2) by simp
  have p3: "cp_ctx_done ?cp \<longrightarrow> list_all even (take k (picks w))" using assms(5) by simp
  have p4: "length (buf (connections ?cp)) + k < cap (connections ?cp)"
    using assms(4) by (simp add: make_chan_def)
  have p5: "0 + int k < cp_size ?cp" using assms(4) by simp
  from initCachedConns_from_run[OF assms(3) p2 p3 p4 p5] obtain w' where
    r: "initCachedConns_from 0 w ?cp =
           (Some (Errorf_wv ErrPoolInitializationFailed (Errorf_wv ErrConnectionFailed (Cause c))),
            ?cp\<lparr>connections := (connections ?cp)\<lparr>buf := buf (connections ?cp) @
                 map (\<lambda>i. cached_conn u' (cp_name ?cp) (cp_tls ?cp) (cp_ctx_done ?cp) (0 + int i)) [0..<k]\<rparr>\<rparr>,
            w')" and d: "dials w' = rest"
    by blast
  from r have "newConnectionPoolFromOption w connectUrl option =
           (Ret (None, Some (Errorf_wv ErrPoolInitializationFailed
                               (Errorf_wv ErrConnectionFailed (Cause c)))),
            Some \<lparr>cp_name = Name option, cp_url = u, cp_size = Size option,
                  cp_tls = TLSConfig option, cp_ctx_done = Ctx option,
                  connections =
                    \<lparr>buf = map (\<lambda>i. cached_conn u' (Name option) (TLSConfig option) (Ctx option)
                                      (int i)) [0..<k],
                     cap = nat (Size option), chan_closed = False\<rparr>,
                  transientID = 0, concurrentTransient = 0\<rparr>,
            w')"
    using assms(1) sz
    by (simp add: newConnectionPoolFromOption_def initCachedConns_def make_chan_def Let_def)
  with d show ?thesis by (auto simp: cached_conn_open) (simp add: cached_conn_def)
qed

lemma abandoned_eval:
  "newConnectionPoolFromOption (quiet_world\<lparr>dials := [DialOk, DialFail ''refused'']\<rparr>)
       ''amqp://localhost:5672'' two_pool_options =
     (Ret (None, Some (Errorf_wv ErrPoolInitializationFailed
                         (Errorf_wv ErrConnectionFailed (Cause ''refused'')))),
      Some abandoned_pool, quiet_world)"
  by (simp add: two_pool_options_def abandoned_pool_def pool_eval conn_eval)

text \<open>
  Claim C2 fails: with size two, the first dial succeeding and the second refused, the
  constructor returns \<^verbatim>\<open>ErrPoolInitializationFailed\<close> and the connection it had
  initialized is not closed.
\<close>

theorem failed_initialization_counterexample:
  "NewConnectionPool (quiet_world\<lparr>dials := [DialOk, DialFail ''refused'']\<rparr>) False
       ''amqp://localhost:5672'' 2 [] =
     (Ret (None, Some (Errorf_wv ErrPoolInitializationFailed
                         (Errorf_wv ErrConnectionFailed (Cause ''refused'')))),
      Some abandoned_pool, quiet_world) \<and>
   buf (connections abandoned_pool) = [open_conn] \<and>
   \<not> isClosed open_conn \<and> \<not> ctx_done open_conn \<and> conn open_conn = Some (AmqpConn False)"
  by (simp add: abandoned_pool_def pool_eval conn_eval)

theorem failed_creation_closes_nothing_witness:
  "parseRequestURI (quiet_world\<lparr>dials := [DialOk, DialFail ''refused'']\<rparr>)
     (TLSConfig two_pool_options) ''amqp://localhost:5672'' = Some ''amqp://localhost:5672'' \<and>
   parse (quiet_world\<lparr>dials := [DialOk, DialFail ''refused'']\<rparr>)
     (TLSConfig two_pool_options) ''amqp://localhost:5672'' = Some ''amqp://localhost:5672'' \<and>
   dials (quiet_world\<lparr>dials := [DialOk, DialFail ''refused'']\<rparr>) =
     replicate 1 DialOk @ DialFail ''refused'' # [] \<and>
   int 1 < Size two_pool_options \<and> \<not> Ctx two_pool_options \<and>
   (\<exists>w'. newConnectionPoolFromOption (quiet_world\<lparr>dials := [DialOk, DialFail ''refused'']\<rparr>)
            ''amqp://localhost:5672'' two_pool_options =
          (Ret (None, Some (Errorf_wv ErrPoolInitializationFailed
                              (Errorf_wv ErrConnectionFailed (Cause ''refused'')))),
           Some abandoned_pool, w') \<and> dials w' = []) \<and>
   buf (connections abandoned_pool) = [open_conn] \<and> \<not> isClosed open_conn"
proof -
  let ?w = "quiet_world\<lparr>dials := [DialOk, DialFail ''refused'']\<rparr>"
  let ?u = "''amqp://localhost:5672''"
  have h1: "parseRequestURI ?w (TLSConfig two_pool_options) ?u = Some ?u"
    and h2: "parse ?w (TLSConfig two_pool_options) ?u = Some ?u"
    by (simp_all add: quiet_world_def)
  have h3: "dials ?w = replicate 1 DialOk @ DialFail ''refused'' # []" by simp
  have h4: "int 1 < Size two_pool_options" by (simp add: two_pool_options_def)
  have h5: "\<not> Ctx two_pool_options" by (simp add: two_pool_options_def)
  then have h5': "Ctx two_pool_options \<longrightarrow> list_all even (take 1 (picks ?w))" by simp
  have c: "cached_conn ?u (Name two_pool_options) (TLSConfig two_pool_options)
             (Ctx two_pool_options) (int 0) = open_conn"
    by (simp add: cached_conn_def open_conn_def two_pool_options_def string_of_int_def
          string_of_nat.simps)
  have p: "\<lparr>cp_name = Name two_pool_options, cp_url = ?u, cp_size = Size two_pool_options,
            cp_tls = TLSConfig two_pool_options, cp_ctx_done = Ctx two_pool_options,
            connections = \<lparr>buf = [open_conn], cap = nat (Size two_pool_options),
                            chan_closed = False\<rparr>,
            transientID = 0, concurrentTransient = 0\<rparr> = abandoned_pool"
    by (simp add: abandoned_pool_def example_pool_def two_pool_options_def)
  have m: "map (\<lambda>i. cached_conn ?u (Name two_pool_options) (TLSConfig two_pool_options)
                      (Ctx two_pool_options) (int i)) [0..<1] = [open_conn]"
    using c by simp
  note th = failed_creation_closes_nothing[OF h1 h2 h3 h4 h5']
  from th have e: "\<exists>w'. newConnectionPoolFromOption ?w ?u two_pool_options =
          (Ret (None, Some (Errorf_wv ErrPoolInitializationFailed
                              (Errorf_wv ErrConnectionFailed (Cause ''refused'')))),
           Some abandoned_pool, w') \<and> dials w' = []"
    unfolding m p by (rule conjunct1)
  from th have "isClosed (cached_conn ?u (Name two_pool_options) (TLSConfig two_pool_options)
                   (Ctx two_pool_options) (int 0)) = Ctx two_pool_options"
    by blast
  with c h5 have o: "\<not> isClosed open_conn" by simp
  have b: "buf (connections abandoned_pool) = [open_conn]" by (simp add: abandoned_pool_def)
  from h1 h2 h3 h4 h5 e o b show ?thesis by blast
qed

lemma Flag_eq: "Flag b c = c\<lparr>flagged := flagged c \<or> b\<rparr>"
  by (cases "flagged c") (auto simp: Flag_def)

text \<open>
  Claim C5. \<^verbatim>\<open>ReturnConnection(ctx, conn, err)\<close> on a transient connection returns
  after decrementing the live-transient counter and closing the connection, and leaves
  the queue as it is. On a cached connection it raises the flag exactly when \<open>err\<close>
  is a broker-class error (\<^verbatim>\<open>nil\<close> and the cancellation-class errors raise nothing; a
  flag raised before stays), then appends the connection to the queue when there is
  room, and panics when the queue is full.
\<close>

theorem ReturnConnection_routes:
  "(\<not> IsCached c \<longrightarrow>
      ReturnConnection w ctx cp c err =
        (Ret (), cp\<lparr>concurrentTransient := concurrentTransient cp - 1\<rparr>, Close c, w) \<and>
      ctx_done (Close c) \<and> (\<forall>h. conn (Close c) = Some h \<longrightarrow> handle_closed h)) \<and>
   (IsCached c \<longrightarrow>
      ReturnConnection w ctx cp c err =
        (if length (buf (connections cp)) < cap (connections cp)
         then (Ret (),
               cp\<lparr>connections := (connections cp)
                    \<lparr>buf := buf (connections cp) @ [c\<lparr>flagged := flagged c \<or> flaggable err\<rparr>]\<rparr>\<rparr>,
               c\<lparr>flagged := flagged c \<or> flaggable err\<rparr>, w)
         else (Panic buffer_full, cp, c\<lparr>flagged := flagged c \<or> flaggable err\<rparr>, w))) \<and>
   \<not> flaggable None \<and>
   (\<forall>e. flaggable (Some e) = (\<not> cancellation_class e)) \<and>
   cancellation_class CtxErr \<and> cancellation_class ErrClosed \<and> cancellation_class ErrPoolClosed \<and>
   cancellation_class pool_closed \<and> cancellation_class recovery_failed"
  by (auto simp: ReturnConnection_def Flag_eq decTransient_def Close_def Let_def can_send_def send_def
        flaggable_def cancellation_class_def pool_closed_def recovery_failed_def
        split: option.splits)

theorem ReturnConnection_routes_witness:
  "\<not> IsCached transient_conn \<and>
   ReturnConnection quiet_world False (example_pool\<lparr>concurrentTransient := 1\<rparr>) transient_conn None =
     (Ret (), example_pool, Close transient_conn, quiet_world) \<and>
   conn (Close transient_conn) = Some (AmqpConn True) \<and> handle_closed (AmqpConn True) \<and>
   IsCached open_conn \<and>
   ReturnConnection quiet_world False
       (example_pool\<lparr>connections := \<lparr>buf = [], cap = 1, chan_closed = False\<rparr>\<rparr>) open_conn
       (Some (AmqpError 320)) = (Ret (), flagged_pool, open_conn\<lparr>flagged := True\<rparr>, quiet_world) \<and>
   ReturnConnection quiet_world False
       (example_pool\<lparr>connections := \<lparr>buf = [], cap = 1, chan_closed = False\<rparr>\<rparr>) open_conn
       (Some CtxErr) = (Ret (), example_pool, open_conn, quiet_world) \<and>
   ReturnConnection quiet_world False example_pool open_conn None =
     (Panic buffer_full, example_pool, open_conn, quiet_world)"
proof -
  let ?empty = "example_pool\<lparr>connections := \<lparr>buf = [], cap = 1, chan_closed = False\<rparr>\<rparr>"
  have t: "\<not> IsCached transient_conn" by (simp add: IsCached_def transient_conn_def)
  have c: "IsCached open_conn" by (simp add: IsCached_def open_conn_def)
  have k: "conn (Close transient_conn) = Some (AmqpConn True)"
    by (simp add: Close_def transient_conn_def open_conn_def)
  have f1: "flaggable (Some (AmqpError 320))" "\<not> flaggable (Some CtxErr)" "\<not> flaggable None"
    by (simp_all add: flaggable_def cancellation_class_def)
  have e1: "?empty\<lparr>connections := (connections ?empty)\<lparr>buf := buf (connections ?empty) @
               [open_conn\<lparr>flagged := flagged open_conn \<or> True\<rparr>]\<rparr>\<rparr> = flagged_pool"
    by (simp add: flagged_pool_def example_pool_def)
  have e2: "?empty\<lparr>connections := (connections ?empty)\<lparr>buf := buf (connections ?empty) @
               [open_conn\<lparr>flagged := flagged open_conn \<or> False\<rparr>]\<rparr>\<rparr> = example_pool"
    by (simp add: example_pool_def open_conn_def)
  have nf: "\<not> flagged open_conn" by (simp add: open_conn_def)
  from ReturnConnection_routes[of transient_conn quiet_world False "example_pool\<lparr>concurrentTransient := 1\<rparr>" None] t
  have r1: "ReturnConnection quiet_world False (example_pool\<lparr>concurrentTransient := 1\<rparr>) transient_conn None =
     (Ret (), example_pool, Close transient_conn, quiet_world)"
    by (simp add: example_pool_def)
  from ReturnConnection_routes[of open_conn quiet_world False ?empty "Some (AmqpError 320)"] c f1 e1 nf
  have r2: "ReturnConnection quiet_world False ?empty open_conn (Some (AmqpError 320)) =
      (Ret (), flagged_pool, open_conn\<lparr>flagged := True\<rparr>, quiet_world)"
    by (simp add: example_pool_def)
  from ReturnConnection_routes[of open_conn quiet_world False ?empty "Some CtxErr"] c f1 e2 nf
  have r3: "ReturnConnection quiet_world False ?empty open_conn (Some CtxErr) =
      (Ret (), example_pool, open_conn, quiet_world)"
    by (simp add: example_pool_def open_conn_def)
  from ReturnConnection_routes[of open_conn quiet_world False example_pool None] c f1 nf
  have r4: "ReturnConnection quiet_world False example_pool open_conn None =
     (Panic buffer_full, example_pool, open_conn, quiet_world)"
    by (simp add: example_pool_def open_conn_def)
  from t r1 k c r2 r3 r4 show ?thesis by simp
qed





lemma SessionPool_Close_loop_result:
  "SessionPool_Close_loop sp acc = (r, sp', closed) \<Longrightarrow>
     sp' = sp\<lparr>sessions := (sessions sp)\<lparr>buf := []\<rparr>\<rparr> \<and>
     closed = acc @ map Session_Close (buf (sessions sp)) \<and>
     r = (if chan_closed (sessions sp) then Panic nil_dereference else Ret ())"
proof (induction sp acc arbitrary: r sp' closed rule: SessionPool_Close_loop.induct)
  case (1 sp acc)
  show ?case
  proof (cases "buf (sessions sp)")
    case Nil
    with "1.prems" show ?thesis
      by (subst (asm) SessionPool_Close_loop.simps) (auto simp: can_recv_def split: if_splits)
  next
    case (Cons s ss)
    then have cr: "can_recv (sessions sp)" by (simp add: can_recv_def)
    with "1.prems" Cons
    have "SessionPool_Close_loop (sp\<lparr>sessions := (sessions sp)\<lparr>buf := ss\<rparr>\<rparr>) (acc @ [Session_Close s])
            = (r, sp', closed)"
      by (subst (asm) SessionPool_Close_loop.simps) simp
    from "1.IH"[OF cr Cons this] Cons show ?thesis by simp
  qed
qed

text \<open>
  Claim C10. \<^verbatim>\<open>Close\<close> of the session pool changes nothing of the pool but the
  queue, which it empties, closing the sessions it takes out; the shutdown token is as
  before. When \<^verbatim>\<open>Close\<close> has returned and the token has not fired, \<^verbatim>\<open>GetSession\<close>
  blocks instead of returning \<^verbatim>\<open>ErrClosed\<close>.
\<close>

theorem SessionPool_Close_keeps_token:
  assumes "SessionPool_Close sp = (r, sp', closed)"
  shows "sp_ctx_done sp' = sp_ctx_done sp \<and>
         sp' = sp\<lparr>sessions := (sessions sp)\<lparr>buf := []\<rparr>\<rparr> \<and>
         closed = map Session_Close (buf (sessions sp)) \<and>
         (r = Ret () \<and> \<not> sp_ctx_done sp \<longrightarrow> GetSession w sp' = (Blocks, sp', w))"
proof -
  from assms have l: "SessionPool_Close_loop sp [] = (r, sp', closed)"
    by (simp add: SessionPool_Close_def)
  from SessionPool_Close_loop_result[OF l]
  have sp': "sp' = sp\<lparr>sessions := (sessions sp)\<lparr>buf := []\<rparr>\<rparr>"
    and cl: "closed = map Session_Close (buf (sessions sp))"
    and r: "r = (if chan_closed (sessions sp) then Panic nil_dereference else Ret ())"
    by simp_all
  have "GetSession w sp' = (Blocks, sp', w)" if "r = Ret ()" "\<not> sp_ctx_done sp"
  proof -
    from that r have "\<not> chan_closed (sessions sp)" by (auto split: if_splits)
    with that sp' show ?thesis
      by (simp add: GetSession_def can_recv_def select_ready_def)
  qed
  with sp' cl show ?thesis by simp
qed

theorem SessionPool_Close_keeps_token_witness:
  "SessionPool_Close example_session_pool =
     (Ret (), example_session_pool\<lparr>sessions := \<lparr>buf = [], cap = 2, chan_closed = False\<rparr>\<rparr>,
      [(example_session 0)\<lparr>s_closed := True\<rparr>, (example_session 1)\<lparr>s_closed := True\<rparr>]) \<and>
   \<not> sp_ctx_done example_session_pool \<and>
   \<not> sp_ctx_done (example_session_pool\<lparr>sessions := \<lparr>buf = [], cap = 2, chan_closed = False\<rparr>\<rparr>) \<and>
   GetSession quiet_world (example_session_pool\<lparr>sessions := \<lparr>buf = [], cap = 2, chan_closed = False\<rparr>\<rparr>) =
     (Blocks, example_session_pool\<lparr>sessions := \<lparr>buf = [], cap = 2, chan_closed = False\<rparr>\<rparr>, quiet_world)"
proof -
  let ?sp' = "example_session_pool\<lparr>sessions := \<lparr>buf = [], cap = 2, chan_closed = False\<rparr>\<rparr>"
  have c: "SessionPool_Close example_session_pool =
     (Ret (), ?sp', [(example_session 0)\<lparr>s_closed := True\<rparr>, (example_session 1)\<lparr>s_closed := True\<rparr>])"
    by (simp add: session_eval can_recv_def)
  have n: "\<not> sp_ctx_done example_session_pool" by (simp add: example_session_pool_def)
  have n': "\<not> sp_ctx_done ?sp'" by (simp add: example_session_pool_def)
  from SessionPool_Close_keeps_token[OF c, of quiet_world]
  have "Ret () = Ret () \<and> \<not> sp_ctx_done example_session_pool \<longrightarrow>
          GetSession quiet_world ?sp' = (Blocks, ?sp', quiet_world)"
    by blast
  with n have "GetSession quiet_world ?sp' = (Blocks, ?sp', quiet_world)" by blast
  with c n n' show ?thesis by blast
qed

end
